theory Spec2Isabelle
  imports Main "HOL-Library.Char_ord"
begin

section \<open>Go strings and the standard-library string functions the code calls\<close>

text \<open>
  A Go string is a sequence of bytes; \<open>len\<close>, indexing and slicing count bytes. It is
  modelled as \<^typ>\<open>string\<close>, a list of 8-bit characters. The functions of this section
  are those of Go's packages \<open>strings\<close> and \<open>path/filepath\<close> (Unix flavour, separator
  \<open>/\<close>) that the package \<open>anna\<close> calls; each follows the documented behaviour of the
  library function of the same name.
\<close>

fun HasPrefix :: "string \<Rightarrow> string \<Rightarrow> bool" where
  "HasPrefix s [] = True"
| "HasPrefix [] (p # ps) = False"
| "HasPrefix (c # cs) (p # ps) = (c = p \<and> HasPrefix cs ps)"

fun Contains :: "string \<Rightarrow> string \<Rightarrow> bool" where
  "Contains [] sub = (sub = [])"
| "Contains (c # cs) sub = (HasPrefix (c # cs) sub \<or> Contains cs sub)"

definition TrimPrefix :: "string \<Rightarrow> string \<Rightarrow> string" where
  "TrimPrefix s p = (if HasPrefix s p then drop (length p) s else s)"

text \<open>
  \<open>strings.ReplaceAll(s, old, new)\<close> replaces the non-overlapping occurrences of \<open>old\<close>,
  found from left to right. The code only calls it with the constant \<open>".."\<close> for \<open>old\<close>;
  for an empty \<open>old\<close> Go inserts \<open>new\<close> around every UTF-8 sequence, which is not
  modelled (the function then returns \<open>s\<close>).
\<close>

function ReplaceAll :: "string \<Rightarrow> string \<Rightarrow> string \<Rightarrow> string" where
  "ReplaceAll [] old new = []"
| "ReplaceAll (c # cs) old new =
     (if old \<noteq> [] \<and> HasPrefix (c # cs) old
      then new @ ReplaceAll (drop (length old) (c # cs)) old new
      else c # ReplaceAll cs old new)"
  by pat_completeness auto
termination
  by (relation "measure (\<lambda>(s, old, new). length s)") auto

text \<open>
  \<open>filepath.Base\<close>: the last element of the path. Trailing separators are removed first;
  the empty path gives \<open>"."\<close>, a path of separators only gives \<open>"/"\<close>.
\<close>

definition IsPathSeparator :: "char \<Rightarrow> bool" where
  "IsPathSeparator c = (c = CHR ''/'')"

definition Base :: "string \<Rightarrow> string" where
  "Base path =
     (if path = [] then ''.''
      else let stripped = rev (dropWhile IsPathSeparator (rev path));
               elem = rev (takeWhile (\<lambda>c. \<not> IsPathSeparator c) (rev stripped))
           in if elem = [] then ''/'' else elem)"

text \<open>
  \<open>strings.Index(s, sub)\<close>: the byte index of the first occurrence of \<open>sub\<close>, or
  \<open>-1\<close>.
\<close>

fun IndexFrom :: "nat \<Rightarrow> string \<Rightarrow> string \<Rightarrow> int" where
  "IndexFrom i [] sub = (if sub = [] then int i else - 1)"
| "IndexFrom i (c # cs) sub =
     (if HasPrefix (c # cs) sub then int i else IndexFrom (Suc i) cs sub)"

definition Index :: "string \<Rightarrow> string \<Rightarrow> int" where
  "Index s sub = IndexFrom 0 s sub"

text \<open>
  \<open>strings.Split(s, sep)\<close> cuts \<open>s\<close> at the non-overlapping occurrences of \<open>sep\<close>,
  from left to right; \<open>n\<close> occurrences give \<open>n + 1\<close> fields, and a string without
  \<open>sep\<close> gives itself as the only field. \<open>SplitFrom cur s sep\<close> carries the bytes of the
  current field, reversed. The code passes constant, non-empty separators; the empty
  separator (for which Go cuts after every UTF-8 sequence) is not modelled.
\<close>

function SplitFrom :: "string \<Rightarrow> string \<Rightarrow> string \<Rightarrow> string list" where
  "SplitFrom cur [] sep = [rev cur]"
| "SplitFrom cur (c # cs) sep =
     (if sep \<noteq> [] \<and> HasPrefix (c # cs) sep
      then rev cur # SplitFrom [] (drop (length sep) (c # cs)) sep
      else SplitFrom (c # cur) cs sep)"
  by pat_completeness auto
termination
  by (relation "measure (\<lambda>(cur, s, sep). length s)") auto

definition Split :: "string \<Rightarrow> string \<Rightarrow> string list" where
  "Split s sep = SplitFrom [] s sep"

text \<open>
  \<open>strings.TrimSpace\<close> removes leading and trailing white space as Unicode defines it
  (\<open>unicode.IsSpace\<close>): the ASCII characters tab, line feed, vertical tab, form feed,
  carriage return and space, and the code points U+0085, U+00A0, U+1680, U+2000 to
  U+200A, U+2028, U+2029, U+202F, U+205F and U+3000. \<open>spaceEncodings\<close> lists their UTF-8
  encodings. A string starts (ends) with a white-space rune exactly when one of the
  encodings is a prefix (suffix) of it.
\<close>

definition spaceEncodings :: "string list" where
  "spaceEncodings =
     [[CHR 0x09], [CHR 0x0A], [CHR 0x0B], [CHR 0x0C], [CHR 0x0D], [CHR 0x20],
      [CHR 0xC2, CHR 0x85], [CHR 0xC2, CHR 0xA0],
      [CHR 0xE1, CHR 0x9A, CHR 0x80],
      [CHR 0xE2, CHR 0x80, CHR 0x80], [CHR 0xE2, CHR 0x80, CHR 0x81],
      [CHR 0xE2, CHR 0x80, CHR 0x82], [CHR 0xE2, CHR 0x80, CHR 0x83],
      [CHR 0xE2, CHR 0x80, CHR 0x84], [CHR 0xE2, CHR 0x80, CHR 0x85],
      [CHR 0xE2, CHR 0x80, CHR 0x86], [CHR 0xE2, CHR 0x80, CHR 0x87],
      [CHR 0xE2, CHR 0x80, CHR 0x88], [CHR 0xE2, CHR 0x80, CHR 0x89],
      [CHR 0xE2, CHR 0x80, CHR 0x8A],
      [CHR 0xE2, CHR 0x80, CHR 0xA8], [CHR 0xE2, CHR 0x80, CHR 0xA9],
      [CHR 0xE2, CHR 0x80, CHR 0xAF], [CHR 0xE2, CHR 0x81, CHR 0x9F],
      [CHR 0xE3, CHR 0x80, CHR 0x80]]"

text \<open>
  \<open>leading encs s\<close> is the length of the encoding \<open>s\<close> starts with, or \<open>0\<close>;
  \<open>trimLeading\<close> removes such encodings until none is left.
\<close>

definition leading :: "string list \<Rightarrow> string \<Rightarrow> nat" where
  "leading encs s = (case find (HasPrefix s) encs of None \<Rightarrow> 0 | Some e \<Rightarrow> length e)"

fun trimLeading :: "string list \<Rightarrow> string \<Rightarrow> string" where
  "trimLeading encs [] = []"
| "trimLeading encs (c # cs) =
     (if leading encs (c # cs) = 0 then c # cs
      else trimLeading encs (drop (leading encs (c # cs) - 1) cs))"

definition TrimSpace :: "string \<Rightarrow> string" where
  "TrimSpace s =
     rev (trimLeading (map rev spaceEncodings) (rev (trimLeading spaceEncodings s)))"

text \<open>
  \<open>strings.ToUpper\<close> and \<open>strings.ToLower\<close> on the ASCII letters. Go maps every other
  rune through the Unicode case tables; the model leaves bytes that are not ASCII letters
  unchanged, which is what Go does on ASCII strings.
\<close>

definition lowerLetters :: string where
  "lowerLetters = ''abcdefghijklmnopqrstuvwxyz''"

definition upperLetters :: string where
  "upperLetters = ''ABCDEFGHIJKLMNOPQRSTUVWXYZ''"

definition translate :: "string \<Rightarrow> string \<Rightarrow> char \<Rightarrow> char" where
  "translate src dst c = (case map_of (zip src dst) c of None \<Rightarrow> c | Some d \<Rightarrow> d)"

definition ToUpper :: "string \<Rightarrow> string" where
  "ToUpper s = map (translate lowerLetters upperLetters) s"

definition ToLower :: "string \<Rightarrow> string" where
  "ToLower s = map (translate upperLetters lowerLetters) s"

section \<open>The filename sanitizer\<close>

text \<open>
  \<open>unsafeFilenameChars\<close> is the regular expression \<^verbatim>\<open>[<>:"/\\|?*\x00-\x1f]\<close>: one
  character class of nine punctuation characters and the bytes \<open>0x00\<close> to \<open>0x1F\<close>. Every
  member is an ASCII character, so the class matches byte by byte (a byte of a multi-byte
  UTF-8 sequence, or an invalid byte, never matches and is copied unchanged), and
  \<open>ReplaceAllString(filename, "_")\<close> replaces each matching byte by an underscore.
\<close>

definition unsafeFilenameChars :: "char \<Rightarrow> bool" where
  "unsafeFilenameChars c =
     (c \<in> set [CHR ''<'', CHR ''>'', CHR '':'', CHR 0x22, CHR ''/'', CHR 0x5C,
               CHR ''|'', CHR ''?'', CHR ''*'']
      \<or> (of_char c :: nat) \<le> 0x1F)"

definition ReplaceAllString_unsafe :: "string \<Rightarrow> string" where
  "ReplaceAllString_unsafe s = map (\<lambda>c. if unsafeFilenameChars c then CHR ''_'' else c) s"

definition sanitizeFilename :: "string \<Rightarrow> string" where
  "sanitizeFilename filename =
     (let safe = ReplaceAllString_unsafe filename;
          safe = ReplaceAll safe ''..'' ''_'';
          safe = Base safe
      in if length safe > 200 then take 200 safe else safe)"

text \<open>
  The first two statements of \<open>sanitizeFilename\<close>, named for the proofs: the string
  handed to \<open>filepath.Base\<close>.
\<close>

definition sanitizeCore :: "string \<Rightarrow> string" where
  "sanitizeCore s = ReplaceAll (ReplaceAllString_unsafe s) ''..'' ''_''"

section \<open>Regular expressions\<close>

text \<open>
  The two expressions of \<open>extractMetaInformation\<close> are values of a small syntax tree;
  \<open>matchesAt\<close> is a backtracking matcher with the preference order of Go's package
  \<open>regexp\<close> (leftmost match; the left alternative first; \<open>?\<close>, \<open>*\<close> and \<open>+\<close> greedy).
  A matcher state is the byte before the position (none at the start of the text), the
  rest of the text and the text of capture group 1, if it has matched. \<open>matchesAt\<close>
  returns the states in which a match can end, the preferred one first.

  Go matches rune by rune. Both expressions only name ASCII characters, and the letters
  of the case-insensitive one (no \<open>K\<close>, no \<open>S\<close>) have no case variant outside ASCII, so
  matching byte by byte gives the same matches on every input.
\<close>

datatype regexp =
    Lit string
  | Class "(char \<times> char) list"
  | Seq regexp regexp
  | Alt regexp regexp
  | Quest regexp
  | Star regexp
  | Plus regexp
  | WordBoundary
  | Group regexp

type_synonym mstate = "char option \<times> string \<times> string option"

definition inClass :: "(char \<times> char) list \<Rightarrow> char \<Rightarrow> bool" where
  "inClass ranges c = list_ex (\<lambda>(lo, hi). lo \<le> c \<and> c \<le> hi) ranges"

text \<open>\<^verbatim>\<open>\b\<close> is the ASCII word boundary: exactly one of the two neighbours is a word
  character \<^verbatim>\<open>[0-9A-Za-z_]\<close>; the edges of the text count as non-word.\<close>

definition isWordByte :: "char \<Rightarrow> bool" where
  "isWordByte c =
     inClass [(CHR ''0'', CHR ''9''), (CHR ''A'', CHR ''Z''), (CHR ''_'', CHR ''_''),
              (CHR ''a'', CHR ''z'')] c"

definition atWordBoundary :: "char option \<Rightarrow> string \<Rightarrow> bool" where
  "atWordBoundary prev rest =
     ((case prev of None \<Rightarrow> False | Some c \<Rightarrow> isWordByte c)
      \<noteq> (case rest of [] \<Rightarrow> False | c # cs \<Rightarrow> isWordByte c))"

definition sameByte :: "bool \<Rightarrow> char \<Rightarrow> char \<Rightarrow> bool" where
  "sameByte ci a b =
     (if ci then translate upperLetters lowerLetters a = translate upperLetters lowerLetters b
      else a = b)"

fun matchLit :: "bool \<Rightarrow> string \<Rightarrow> char option \<Rightarrow> string \<Rightarrow> (char option \<times> string) option" where
  "matchLit ci [] prev s = Some (prev, s)"
| "matchLit ci (l # ls) prev [] = None"
| "matchLit ci (l # ls) prev (c # cs) =
     (if sameByte ci l c then matchLit ci ls (Some c) cs else None)"

text \<open>
  \<open>iterate n m st\<close>: the states after zero or more rounds of \<open>m\<close>, more rounds first.
  Every round must consume input, so the length of the rest bounds the rounds.
\<close>

primrec iterate :: "nat \<Rightarrow> (mstate \<Rightarrow> mstate list) \<Rightarrow> mstate \<Rightarrow> mstate list" where
  "iterate 0 m st = [st]"
| "iterate (Suc n) m st =
     concat (map (\<lambda>st'. if length (fst (snd st')) < length (fst (snd st))
                         then iterate n m st' else [])
                 (m st)) @ [st]"

primrec matchesAt :: "bool \<Rightarrow> regexp \<Rightarrow> mstate \<Rightarrow> mstate list" where
  "matchesAt ci (Lit l) st =
     (case matchLit ci l (fst st) (fst (snd st)) of
        None \<Rightarrow> []
      | Some (prev, rest) \<Rightarrow> [(prev, rest, snd (snd st))])"
| "matchesAt ci (Class ranges) st =
     (case fst (snd st) of
        [] \<Rightarrow> []
      | c # cs \<Rightarrow> if inClass ranges c then [(Some c, cs, snd (snd st))] else [])"
| "matchesAt ci (Seq a b) st = concat (map (matchesAt ci b) (matchesAt ci a st))"
| "matchesAt ci (Alt a b) st = matchesAt ci a st @ matchesAt ci b st"
| "matchesAt ci (Quest a) st = matchesAt ci a st @ [st]"
| "matchesAt ci (Star a) st = iterate (length (fst (snd st))) (matchesAt ci a) st"
| "matchesAt ci (Plus a) st =
     concat (map (\<lambda>st'. iterate (length (fst (snd st'))) (matchesAt ci a) st')
                 (matchesAt ci a st))"
| "matchesAt ci WordBoundary st =
     (if atWordBoundary (fst st) (fst (snd st)) then [st] else [])"
| "matchesAt ci (Group a) st =
     map (\<lambda>(prev, rest, cap).
            (prev, rest, Some (take (length (fst (snd st)) - length rest) (fst (snd st)))))
         (matchesAt ci a st)"

text \<open>
  \<open>search\<close> tries the start positions from left to right and returns the suffix at which
  the first match starts, with the preferred end state there.
\<close>

fun search :: "bool \<Rightarrow> regexp \<Rightarrow> char option \<Rightarrow> string \<Rightarrow> (string \<times> mstate) option" where
  "search ci re prev [] =
     (case matchesAt ci re (prev, [], None) of [] \<Rightarrow> None | st # sts \<Rightarrow> Some ([], st))"
| "search ci re prev (c # cs) =
     (case matchesAt ci re (prev, c # cs, None) of
        [] \<Rightarrow> search ci re (Some c) cs
      | st # sts \<Rightarrow> Some (c # cs, st))"

text \<open>
  A compiled expression is the pair of its case-insensitivity flag \<^verbatim>\<open>(?i)\<close> and its
  tree. \<open>FindStringSubmatch\<close> returns the empty list when nothing matches, else the
  matched text followed by the text of group 1.
\<close>

definition MatchString :: "bool \<times> regexp \<Rightarrow> string \<Rightarrow> bool" where
  "MatchString re s = (search (fst re) (snd re) None s \<noteq> None)"

definition FindStringSubmatch :: "bool \<times> regexp \<Rightarrow> string \<Rightarrow> string list" where
  "FindStringSubmatch re s =
     (case search (fst re) (snd re) None s of
        None \<Rightarrow> []
      | Some (from, (prev, rest, cap)) \<Rightarrow>
          [take (length from - length rest) from, (case cap of None \<Rightarrow> [] | Some g \<Rightarrow> g)])"

text \<open>
  \<^verbatim>\<open>(?i)\b(EPUB|PDF|MOBI|AZW3|AZW|DJVU|CBZ|CBR|FB2|DOCX?|TXT)\b\<close> and
  \<^verbatim>\<open>\d+\.?\d*\s*(MB|KB|GB|TB)\<close>, with \<^verbatim>\<open>\d\<close> the class \<^verbatim>\<open>[0-9]\<close> and \<^verbatim>\<open>\s\<close> the
  class \<^verbatim>\<open>[\t\n\f\r ]\<close>.
\<close>

definition formatRegex :: "bool \<times> regexp" where
  "formatRegex =
     (True,
      Seq WordBoundary
       (Seq (Group
              (Alt (Lit ''EPUB'') (Alt (Lit ''PDF'') (Alt (Lit ''MOBI'') (Alt (Lit ''AZW3'')
              (Alt (Lit ''AZW'') (Alt (Lit ''DJVU'') (Alt (Lit ''CBZ'') (Alt (Lit ''CBR'')
              (Alt (Lit ''FB2'') (Alt (Seq (Lit ''DOC'') (Quest (Lit ''X'')))
                   (Lit ''TXT''))))))))))))
            WordBoundary))"

definition digit :: regexp where
  "digit = Class [(CHR ''0'', CHR ''9'')]"

definition space :: regexp where
  "space = Class [(CHR 0x09, CHR 0x0A), (CHR 0x0C, CHR 0x0D), (CHR 0x20, CHR 0x20)]"

definition sizeRegex :: "bool \<times> regexp" where
  "sizeRegex =
     (False,
      Seq (Plus digit) (Seq (Quest (Lit ''.'')) (Seq (Star digit) (Seq (Star space)
        (Group (Alt (Lit ''MB'') (Alt (Lit ''KB'') (Alt (Lit ''GB'') (Lit ''TB'')))))))))"

section \<open>The metadata parser\<close>

text \<open>
  \<open>scanParts\<close> is the loop of \<open>extractMetaInformation\<close> over \<open>parts[1:]\<close>, with the two
  results found so far; it stops as soon as both are set.
\<close>

fun scanParts :: "string list \<Rightarrow> string \<Rightarrow> string \<Rightarrow> string \<times> string" where
  "scanParts [] format sz = (format, sz)"
| "scanParts (p # ps) format sz =
     (let part = TrimSpace p;
          sz = (if sz = [] \<and> MatchString sizeRegex part then part else sz);
          format = (if format = [] \<and> MatchString formatRegex part
                    then (case FindStringSubmatch formatRegex part of
                            whole # g # more \<Rightarrow> ToUpper g
                          | _ \<Rightarrow> format)
                    else format)
      in if format \<noteq> [] \<and> sz \<noteq> [] then (format, sz) else scanParts ps format sz)"

text \<open>
  The separator is \<open>" \<cdot> "\<close> (space, U+00B7, space: the bytes \<open>20 C2 B7 20\<close>) and the
  prefix removed from the language is the check mark U+2705 (the bytes \<open>E2 9C 85\<close>).
\<close>

definition extractMetaInformation :: "string \<Rightarrow> string \<times> string \<times> string" where
  "extractMetaInformation meta =
     (let parts = Split meta [CHR 0x20, CHR 0xC2, CHR 0xB7, CHR 0x20]
      in if length parts < 3 then ([], [], [])
         else
           let languagePart = TrimSpace (parts ! 0);
               idx = Index languagePart ''['';
               language =
                 (if idx > 0
                  then TrimSpace (TrimPrefix (TrimSpace (take (nat idx) languagePart))
                                   [CHR 0xE2, CHR 0x9C, CHR 0x85])
                  else []);
               (format, sz) = scanParts (drop 1 parts) [] []
           in (language, format, sz))"

section \<open>Paths\<close>

text \<open>\<open>strings.Join(elems, sep)\<close>.\<close>

fun JoinStrings :: "string list \<Rightarrow> string \<Rightarrow> string" where
  "JoinStrings [] sep = []"
| "JoinStrings [e] sep = e"
| "JoinStrings (e # f # es) sep = e @ sep @ JoinStrings (f # es) sep"

definition IsAbs :: "string \<Rightarrow> bool" where
  "IsAbs path = HasPrefix path ''/''"

text \<open>
  \<open>filepath.Clean\<close> returns the shortest path equivalent to its argument by purely
  lexical processing: it replaces multiple separators by one, eliminates each \<open>.\<close>
  element, eliminates each inner \<open>..\<close> element together with the element before it,
  and eliminates \<open>..\<close> elements that begin a rooted path. The empty result is \<open>"."\<close>.
  \<open>cleanStep\<close> handles one element; \<open>out\<close> holds the elements kept so far, the last one
  first.
\<close>

definition cleanStep :: "bool \<Rightarrow> string list \<Rightarrow> string \<Rightarrow> string list" where
  "cleanStep rooted out elem =
     (if elem = [] \<or> elem = ''.'' then out
      else if elem = ''..'' then
        (case out of
           [] \<Rightarrow> if rooted then [] else [''..'']
         | prev # below \<Rightarrow> if prev = ''..'' then ''..'' # out else below)
      else elem # out)"

definition Clean :: "string \<Rightarrow> string" where
  "Clean path =
     (let rooted = IsAbs path;
          out = rev (foldl (cleanStep rooted) [] (Split path ''/''));
          joined = JoinStrings out ''/''
      in if rooted then ''/'' @ joined
         else if joined = [] then ''.'' else joined)"

text \<open>
  \<open>filepath.Join\<close> ignores leading empty elements, joins the others with the separator
  and cleans the result.
\<close>

fun Join :: "string list \<Rightarrow> string" where
  "Join [] = []"
| "Join (e # es) = (if e = [] then Join es else Clean (JoinStrings (e # es) ''/''))"

text \<open>
  \<open>filepath.Ext\<close>: the suffix of the last path element that starts at its last dot;
  empty when there is no dot.
\<close>

definition Ext :: "string \<Rightarrow> string" where
  "Ext path =
     (let elem = rev (takeWhile (\<lambda>c. \<not> IsPathSeparator c) (rev path))
      in if CHR ''.'' \<in> set elem
         then CHR ''.'' # rev (takeWhile (\<lambda>c. c \<noteq> CHR ''.'') (rev elem))
         else [])"

text \<open>The verb \<^verbatim>\<open>%d\<close> of \<open>fmt\<close> on a non-negative integer.\<close>

function showNat :: "nat \<Rightarrow> string" where
  "showNat n =
     (if n < 10 then [''0123456789'' ! n]
      else showNat (n div 10) @ [''0123456789'' ! (n mod 10)])"
  by pat_completeness auto
termination
  by (relation "measure (\<lambda>n. n)") auto

section \<open>Records of the package and the outside world\<close>

text \<open>The structs \<open>Book\<close>, \<open>Paper\<close> and \<open>fastDownloadResponse\<close>, and \<open>env.Env\<close>. The fields
  of \<open>Paper\<close> that share a name with a field of \<open>Book\<close> or of the response carry the
  prefix \<open>Paper\<close>.\<close>

record Book =
  Language :: string
  Format :: string
  Size :: string
  Title :: string
  Publisher :: string
  Authors :: string
  URL :: string
  Hash :: string

record Paper =
  DOI :: string
  PaperTitle :: string
  PaperAuthors :: string
  Journal :: string
  PaperSize :: string
  PaperHash :: string
  PaperDownloadURL :: string
  SciHubURL :: string
  PageURL :: string

record fastDownloadResponse =
  DownloadURL :: string
  Error :: string

record Env =
  SecretKey :: string
  DownloadPath :: string
  AnnasBaseURL :: string

text \<open>
  An HTTP response as the code reads it: the status code and status line, the headers
  (\<open>Header.Get\<close>, empty for a missing header), and the body, a stream that delivers the
  bytes \<open>Body\<close> and then ends, regularly or (\<open>BodyErr\<close>) with a read error.
\<close>

record response =
  StatusCode :: nat
  Status :: string
  Header :: "string \<Rightarrow> string"
  Body :: string
  BodyErr :: "string option"

text \<open>
  An HTML document as the code queries it through \<open>colly\<close> and \<open>goquery\<close>. An \<open>element\<close>
  is an anchor matched by the selector \<^verbatim>\<open>a[href^='/md5/']\<close>, with the results of the
  queries \<open>FindBook\<close> makes from it: its attributes \<open>href\<close> and \<open>class\<close>, the number of
  nodes of \<open>e.DOM.Parent()\<close> and of the \<^verbatim>\<open>div.max-w-full\<close> below the parent, the texts of
  the title link, of the author and publisher links and of the metadata block, and the
  absolute form of \<open>href\<close> (\<open>e.Request.AbsoluteURL\<close>). A \<open>page\<close> lists these anchors in
  document order, and the matches of the four selectors of the detail page: the text
  of each \<open>title\<close> element, the \<open>content\<close> of each \<^verbatim>\<open>meta[name=description]\<close>, for each
  \<^verbatim>\<open>a[href^='/search']\<close> its text and the number of author icons inside it, and the
  text of each \<^verbatim>\<open>div.text-gray-500\<close>.
\<close>

record element =
  href :: string
  class_attr :: string
  parentLength :: nat
  infoDivLength :: nat
  titleText :: string
  authorsRaw :: string
  publisherRaw :: string
  metaText :: string
  absoluteURL :: string

record page =
  anchors :: "element list"
  titles :: "string list"
  descriptions :: "string list"
  searchLinks :: "(string \<times> nat) list"
  grayDivs :: "string list"

text \<open>
  What \<open>Collector.Visit\<close> does with a URL: it refuses it before any request is sent
  (malformed URL, URL already visited, ...) and returns the error; or the request is sent and
  fails (the error callbacks run with the status code, \<open>0\<close> without a response); or the
  page is fetched and the HTML callbacks run on it.
\<close>

datatype visit = Refused string | Failed nat string | Fetched page

text \<open>
  The outside world, as the answers it gives: the environment variables, the HTTP
  client (\<open>client.Get\<close>, and \<open>client.Do\<close> on a GET request with a \<open>User-Agent\<close> header),
  the collector, the file system calls (each an error message or none: \<open>os.Create\<close> and
  \<open>os.Remove\<close> by path, \<open>File.Sync\<close>, and \<open>File.Write\<close> failing after a number of
  bytes), and the library functions \<open>json.Decoder.Decode\<close>, \<open>http.NewRequest\<close>,
  \<open>mime.ParseMediaType\<close>, \<open>mime.ExtensionsByType\<close> and \<open>url.QueryEscape\<close>, which are
  parameters of the model.
\<close>

record world =
  environ :: "string \<Rightarrow> string"
  httpGet :: "string \<Rightarrow> string + response"
  httpDo :: "string \<Rightarrow> string \<Rightarrow> string + response"
  collect :: "string \<Rightarrow> visit"
  createErr :: "string \<Rightarrow> string option"
  writeErr :: "(nat \<times> string) option"
  syncErr :: "string option"
  removeErr :: "string \<Rightarrow> string option"
  decodeJSON :: "response \<Rightarrow> string + fastDownloadResponse"
  newRequestErr :: "string \<Rightarrow> string option"
  ParseMediaType :: "string \<Rightarrow> string + (string \<times> (string \<rightharpoonup> string))"
  ExtensionsByType :: "string \<Rightarrow> string list"
  QueryEscape :: "string \<Rightarrow> string"

text \<open>
  The state the code changes: the files (path to content), the URLs of the requests
  sent, in order, and the log (level and message of each entry, in order).
\<close>

datatype level = InfoLevel | WarnLevel | ErrorLevel

record sys =
  files :: "string \<rightharpoonup> string"
  requests :: "string list"
  logs :: "(level \<times> string) list"

definition logAt :: "level \<Rightarrow> string \<Rightarrow> sys \<Rightarrow> sys" where
  "logAt lv msg s = s\<lparr>logs := logs s @ [(lv, msg)]\<rparr>"

definition send :: "string \<Rightarrow> sys \<Rightarrow> sys" where
  "send url s = s\<lparr>requests := requests s @ [url]\<rparr>"

section \<open>Configuration: \<open>env.GetEnv\<close>\<close>

definition DefaultAnnasBaseURL :: string where
  "DefaultAnnasBaseURL = ''annas-archive.li''"

definition GetEnv :: "world \<Rightarrow> sys \<Rightarrow> (string + Env) \<times> sys" where
  "GetEnv w s =
     (let secretKey = environ w ''ANNAS_SECRET_KEY'';
          downloadPath = environ w ''ANNAS_DOWNLOAD_PATH'';
          annasBaseURL = environ w ''ANNAS_BASE_URL''
      in if secretKey = [] \<or> downloadPath = []
         then (Inl ''ANNAS_SECRET_KEY and ANNAS_DOWNLOAD_PATH environment variables must be set'',
               logAt ErrorLevel ''Environment variables not set'' s)
         else if \<not> IsAbs downloadPath
         then (Inl (''ANNAS_DOWNLOAD_PATH must be an absolute path, got: '' @ downloadPath), s)
         else (Inr \<lparr>SecretKey = secretKey, DownloadPath = downloadPath,
                     AnnasBaseURL = (if annasBaseURL = [] then DefaultAnnasBaseURL
                                     else annasBaseURL)\<rparr>, s))"

section \<open>The download engine\<close>

text \<open>
  The constants of the package. \<open>fmt.Sprintf\<close> with the verbs \<^verbatim>\<open>%s\<close> is written as the
  concatenation it computes.
\<close>

definition BrowserUserAgent :: string where
  "BrowserUserAgent = ''Mozilla/5.0 (Macintosh; Intel Mac OS X 10_15_7) AppleWebKit/537.36 (KHTML, like Gecko) Chrome/120.0.0.0 Safari/537.36''"

definition AnnasSearchEndpoint :: "string \<Rightarrow> string \<Rightarrow> string \<Rightarrow> string" where
  "AnnasSearchEndpoint host q content =
     ''https://'' @ host @ ''/search?q='' @ q @ ''&content='' @ content"

definition AnnasSciDBEndpoint :: "string \<Rightarrow> string \<Rightarrow> string" where
  "AnnasSciDBEndpoint host doi = ''https://'' @ host @ ''/scidb/'' @ doi"

definition AnnasDownloadEndpoint :: "string \<Rightarrow> string \<Rightarrow> string \<Rightarrow> string" where
  "AnnasDownloadEndpoint host md5 key =
     ''https://'' @ host @ ''/dyn/api/fast_download.json?md5='' @ md5 @ ''&key='' @ key"

text \<open>
  \<open>io.ReadAll(io.LimitReader(resp.Body, 512))\<close>: the first 512 bytes of the body; the
  read error of the body is met only when the body ends before the limit.
\<close>

definition readAllLimit :: "nat \<Rightarrow> response \<Rightarrow> string + string" where
  "readAllLimit n resp =
     (if n \<le> length (Body resp) then Inr (take n (Body resp))
      else case BodyErr resp of None \<Rightarrow> Inr (Body resp) | Some e \<Rightarrow> Inl e)"

text \<open>
  The message of the error returned for a status other than 200, with the excerpt of the
  body when it could be read.
\<close>

definition statusError :: "string \<Rightarrow> response \<Rightarrow> string" where
  "statusError what resp =
     (case readAllLimit 512 resp of
        Inl e \<Rightarrow> what @ '' failed with status '' @ showNat (StatusCode resp) @ '': '' @ Status resp
      | Inr body \<Rightarrow> what @ '' failed with status '' @ showNat (StatusCode resp) @ '': '' @
          Status resp @ '' (body: '' @ body @ '')'')"

text \<open>
  \<open>io.Copy(out, body)\<close>: the number of bytes written and the error, if any. The copy stops
  at the first failure: a write that fails after \<open>k\<close> bytes, when the body is longer than
  that, else the read error at the end of the body.
\<close>

definition ioCopy :: "world \<Rightarrow> response \<Rightarrow> nat \<times> string option" where
  "ioCopy w resp =
     (case writeErr w of
        None \<Rightarrow> (length (Body resp), BodyErr resp)
      | Some (k, e) \<Rightarrow>
          if k < length (Body resp) then (k, Some e) else (length (Body resp), BodyErr resp))"

text \<open>
  The deferred function of the write path when \<open>success\<close> is still false: the file is
  closed, then removed; a failing removal is logged and nothing else.
\<close>

definition removePartial :: "world \<Rightarrow> string \<Rightarrow> sys \<Rightarrow> sys" where
  "removePartial w filePath s =
     (case removeErr w filePath of
        None \<Rightarrow> s\<lparr>files := (files s)(filePath := None)\<rparr>
      | Some e \<Rightarrow> logAt WarnLevel ''Failed to remove partial file'' s)"

text \<open>
  The write path, from \<open>os.Create\<close> to the end of the function: the same statements in
  \<open>Book.Download\<close> (on \<open>downloadResp\<close>) and in \<open>Paper.Download\<close> (on \<open>resp\<close>), up to the
  message of the last log entry. The result is \<open>Inl\<close> of the message of the error
  returned, or \<open>Inr ()\<close> for \<open>nil\<close>.
\<close>

definition writePath :: "world \<Rightarrow> string \<Rightarrow> response \<Rightarrow> string \<Rightarrow> sys \<Rightarrow> (string + unit) \<times> sys" where
  "writePath w filePath resp done s =
     (case createErr w filePath of
        Some e \<Rightarrow> (Inl (''failed to create file: '' @ e), s)
      | None \<Rightarrow>
          let written = fst (ioCopy w resp);
              s1 = s\<lparr>files := (files s)(filePath \<mapsto> take written (Body resp))\<rparr>
          in case snd (ioCopy w resp) of
               Some e \<Rightarrow>
                 (Inl (''failed to write file (wrote '' @ showNat written @ '' bytes): '' @ e),
                  removePartial w filePath s1)
             | None \<Rightarrow>
                 (case syncErr w of
                    Some e \<Rightarrow>
                      (Inl (''failed to sync file to disk: '' @ e), removePartial w filePath s1)
                  | None \<Rightarrow> (Inr (), logAt InfoLevel done s1)))"

text \<open>The name of the file of a book, lines 289 to 301 of \<open>Book.Download\<close>.\<close>

definition bookFilePath :: "Book \<Rightarrow> string \<Rightarrow> string" where
  "bookFilePath b folderPath =
     (let safeTitle = sanitizeFilename (Title b);
          safeTitle = (if safeTitle = [] then ''untitled'' else safeTitle);
          format = ToLower (Format b);
          format = (if format = [] then ''bin'' else format);
          filename = safeTitle @ ''.'' @ format
      in Join [folderPath, filename])"

definition Book_Download :: "world \<Rightarrow> Book \<Rightarrow> string \<Rightarrow> string \<Rightarrow> sys \<Rightarrow> (string + unit) \<times> sys" where
  "Book_Download w b secretKey folderPath s =
     (case GetEnv w s of
        (Inl e, s) \<Rightarrow> (Inl (''failed to get environment: '' @ e), s)
      | (Inr env, s) \<Rightarrow>
          let apiURL = AnnasDownloadEndpoint (AnnasBaseURL env) (Hash b) secretKey;
              s = send apiURL (logAt InfoLevel ''Fetching download URL'' s)
          in case httpGet w apiURL of
               Inl e \<Rightarrow> (Inl (''failed to fetch download URL: '' @ e), s)
             | Inr resp \<Rightarrow>
                 if StatusCode resp \<noteq> 200 then (Inl (statusError ''API request'' resp), s)
                 else
                   (case decodeJSON w resp of
                      Inl e \<Rightarrow> (Inl (''failed to decode API response: '' @ e), s)
                    | Inr apiResp \<Rightarrow>
                        if DownloadURL apiResp = [] then
                          (if Error apiResp \<noteq> []
                           then (Inl (''API error: '' @ Error apiResp), s)
                           else (Inl ''API returned empty download URL'', s))
                        else
                          let s = send (DownloadURL apiResp)
                                    (logAt InfoLevel ''Downloading file'' s)
                          in case httpGet w (DownloadURL apiResp) of
                               Inl e \<Rightarrow> (Inl (''failed to download file: '' @ e), s)
                             | Inr downloadResp \<Rightarrow>
                                 if StatusCode downloadResp \<noteq> 200
                                 then (Inl (''download failed with status '' @
                                            showNat (StatusCode downloadResp) @ '': '' @
                                            Status downloadResp), s)
                                 else writePath w (bookFilePath b folderPath) downloadResp
                                        ''Download completed successfully''
                                        (logAt InfoLevel ''Creating file'' s)))"

text \<open>The extension of the file of a paper, lines 504 to 519 of \<open>Paper.Download\<close>.\<close>

definition paperExt :: "world \<Rightarrow> response \<Rightarrow> string" where
  "paperExt w resp =
     (let cd = Header resp ''Content-Disposition''; ct = Header resp ''Content-Type''
      in if cd \<noteq> [] then
           (case ParseMediaType w cd of
              Inl e \<Rightarrow> ''.pdf''
            | Inr (mediatype, params) \<Rightarrow>
                (case params ''filename'' of
                   None \<Rightarrow> ''.pdf''
                 | Some fn \<Rightarrow> if Ext fn \<noteq> [] then Ext fn else ''.pdf''))
         else if ct \<noteq> [] then
           (case ExtensionsByType w ct of [] \<Rightarrow> ''.pdf'' | e # es \<Rightarrow> e)
         else ''.pdf'')"

definition paperFilePath :: "world \<Rightarrow> Paper \<Rightarrow> response \<Rightarrow> string \<Rightarrow> string" where
  "paperFilePath w p resp folderPath =
     (let name = (if PaperTitle p = [] then DOI p else PaperTitle p);
          safeName = sanitizeFilename name;
          safeName = (if safeName = [] then ''paper'' else safeName);
          filename = safeName @ paperExt w resp
      in Join [folderPath, filename])"

definition Paper_Download :: "world \<Rightarrow> Paper \<Rightarrow> string \<Rightarrow> sys \<Rightarrow> (string + unit) \<times> sys" where
  "Paper_Download w p folderPath s =
     (if PaperDownloadURL p = [] then (Inl ''no download URL available for this paper'', s)
      else
        case GetEnv w s of
          (Inl e, s) \<Rightarrow> (Inl (''failed to get environment: '' @ e), s)
        | (Inr env, s) \<Rightarrow>
            let downloadURL =
                  (if HasPrefix (PaperDownloadURL p) ''http'' then PaperDownloadURL p
                   else ''https://'' @ AnnasBaseURL env @ PaperDownloadURL p);
                s = logAt InfoLevel ''Downloading paper via SciDB'' s
            in case newRequestErr w downloadURL of
                 Some e \<Rightarrow> (Inl (''failed to create request: '' @ e), s)
               | None \<Rightarrow>
                   let s = send downloadURL s
                   in case httpDo w BrowserUserAgent downloadURL of
                        Inl e \<Rightarrow> (Inl (''failed to download paper: '' @ e), s)
                      | Inr resp \<Rightarrow>
                          if StatusCode resp \<noteq> 200 then (Inl (statusError ''download'' resp), s)
                          else writePath w (paperFilePath w p resp folderPath) resp
                                 ''Paper download completed successfully''
                                 (logAt InfoLevel ''Creating file'' s))"

section \<open>The DOI resolver\<close>

text \<open>
  The HTML callbacks of \<open>LookupDOI\<close>, each as the change it makes to the paper on one
  matched element. The collector runs a callback on every match of its selector, in
  document order.
\<close>

definition onMd5Anchor :: "Paper \<Rightarrow> element \<Rightarrow> Paper" where
  "onMd5Anchor paper e =
     (if PaperHash paper \<noteq> [] then paper
      else let hash = TrimPrefix (href e) ''/md5/''
           in if hash \<noteq> [] then paper\<lparr>PaperHash := hash\<rparr> else paper)"

definition onTitle :: "Paper \<Rightarrow> string \<Rightarrow> Paper" where
  "onTitle paper title =
     (let idx = Index title '' - Anna''
      in if idx > 0 then paper\<lparr>PaperTitle := TrimSpace (take (nat idx) title)\<rparr> else paper)"

definition onDescription :: "Paper \<Rightarrow> string \<Rightarrow> Paper" where
  "onDescription paper desc =
     (let parts = Split desc [CHR 0x0A, CHR 0x0A]
      in if length parts \<ge> 3 then paper\<lparr>Journal := TrimSpace (parts ! 2)\<rparr>
         else if length parts \<ge> 2 then paper\<lparr>Journal := TrimSpace (parts ! 1)\<rparr>
         else paper\<lparr>Journal := TrimSpace desc\<rparr>)"

definition onSearchLink :: "Paper \<Rightarrow> string \<times> nat \<Rightarrow> Paper" where
  "onSearchLink paper link =
     (if PaperAuthors paper \<noteq> [] then paper
      else if snd link > 0 then paper\<lparr>PaperAuthors := TrimSpace (fst link)\<rparr>
      else paper)"

definition onGrayDiv :: "Paper \<Rightarrow> string \<Rightarrow> Paper" where
  "onGrayDiv paper text =
     (if Contains text ''MB'' \<or> Contains text ''KB''
      then paper\<lparr>PaperSize := TrimSpace text\<rparr> else paper)"

definition onDetailPage :: "Paper \<Rightarrow> page \<Rightarrow> Paper" where
  "onDetailPage paper pg =
     foldl onGrayDiv
       (foldl onSearchLink
          (foldl onDescription (foldl onTitle paper (titles pg)) (descriptions pg))
          (searchLinks pg))
       (grayDivs pg)"

text \<open>The end of \<open>LookupDOI\<close>: the download reference is set and the paper returned.\<close>

definition returnPaper :: "Paper \<Rightarrow> string \<Rightarrow> sys \<Rightarrow> (string + Paper) \<times> sys" where
  "returnPaper paper doi s = (Inr (paper\<lparr>PaperDownloadURL := ''/scidb?doi='' @ doi\<rparr>), s)"

definition LookupDOI :: "world \<Rightarrow> string \<Rightarrow> sys \<Rightarrow> (string + Paper) \<times> sys" where
  "LookupDOI w doi s =
     (case GetEnv w s of
        (Inl e, s) \<Rightarrow> (Inl e, s)
      | (Inr env, s) \<Rightarrow>
          let paper = \<lparr>DOI = doi, PaperTitle = [], PaperAuthors = [], Journal = [],
                       PaperSize = [], PaperHash = [], PaperDownloadURL = [],
                       SciHubURL = [], PageURL = []\<rparr>;
              scidbURL = AnnasSciDBEndpoint (AnnasBaseURL env) doi;
              paper = paper\<lparr>PageURL := scidbURL\<rparr>;
              s = logAt InfoLevel ''Looking up DOI'' s
          in case collect w scidbURL of
               Refused e \<Rightarrow> (Inl (''failed to lookup DOI: '' @ e), s)
             | Failed code e \<Rightarrow>
                 (Inl (''failed to lookup DOI: '' @ e),
                  logAt ErrorLevel ''SciDB search failed'' (send scidbURL s))
             | Fetched pg \<Rightarrow>
                 let s = send scidbURL s;
                     paper = foldl onMd5Anchor paper (anchors pg)
                 in if PaperHash paper = []
                    then (Inl (''no paper found for DOI: '' @ doi), s)
                    else
                      let md5URL = ''https://'' @ AnnasBaseURL env @ ''/md5/'' @ PaperHash paper;
                          s = logAt InfoLevel ''Fetching paper details'' s
                      in case collect w md5URL of
                           Refused e \<Rightarrow>
                             returnPaper paper doi
                               (logAt WarnLevel ''Failed to visit paper detail page'' s)
                         | Failed code e \<Rightarrow>
                             returnPaper paper doi
                               (logAt WarnLevel ''Failed to visit paper detail page''
                                  (logAt WarnLevel ''Failed to fetch paper details''
                                     (send md5URL s)))
                         | Fetched detail \<Rightarrow>
                             returnPaper (onDetailPage paper detail) doi (send md5URL s))"

section \<open>The query executor and the extraction of book records\<close>

text \<open>
  The body of the loop of \<open>FindBook\<close> over the collected anchors: the book record, or
  the message of the warning logged before \<open>continue\<close>.
\<close>

definition extractBook :: "element \<Rightarrow> string + Book" where
  "extractBook e =
     (if parentLength e = 0 then Inl ''Skipping book: no parent element found''
      else if infoDivLength e = 0 then Inl ''Skipping book: book info container not found''
      else
        let title = TrimSpace (titleText e)
        in if title = [] then Inl ''Skipping book: title is empty''
           else
             let authors = TrimSpace (authorsRaw e);
                 publisher = TrimSpace (publisherRaw e);
                 (language, format, sz) = extractMetaInformation (metaText e);
                 link = href e
             in if link = [] then Inl ''Skipping book: no link found''
                else
                  let hash = TrimPrefix link ''/md5/''
                  in if hash = [] then Inl ''Skipping book: no hash found''
                     else Inr \<lparr>Language = language, Format = format, Size = sz,
                               Title = title, Publisher = publisher, Authors = authors,
                               URL = absoluteURL e, Hash = hash\<rparr>)"

fun parseBooks :: "element list \<Rightarrow> Book list \<Rightarrow> sys \<Rightarrow> Book list \<times> sys" where
  "parseBooks [] bookListParsed s = (bookListParsed, s)"
| "parseBooks (e # es) bookListParsed s =
     (case extractBook e of
        Inl reason \<Rightarrow> parseBooks es bookListParsed (logAt WarnLevel reason s)
      | Inr book \<Rightarrow> parseBooks es (bookListParsed @ [book]) s)"

definition primaryLinkClass :: string where
  "primaryLinkClass = ''custom-a block mr-2 sm:mr-4 hover:opacity-80''"

text \<open>
  \<open>FindBook\<close> from \<open>c.Wait()\<close> on, given the anchors the callback has collected.
\<close>

definition parseCollected :: "element list \<Rightarrow> sys \<Rightarrow> (string + Book list) \<times> sys" where
  "parseCollected bookList s =
     (case parseBooks bookList [] s of
        (bookListParsed, s) \<Rightarrow> (Inr bookListParsed, logAt InfoLevel ''Search completed'' s))"

text \<open>
  The collector of \<open>FindBook\<close> is asynchronous: \<open>Visit\<close> returns an error only when the
  URL is refused; a request that fails is reported to the error callback, and the search
  goes on with no anchors.
\<close>

definition FindBook :: "world \<Rightarrow> string \<Rightarrow> string \<Rightarrow> sys \<Rightarrow> (string + Book list) \<times> sys" where
  "FindBook w query content s =
     (let content = (if content = [] then ''book_any'' else content)
      in case GetEnv w s of
           (Inl e, s) \<Rightarrow> (Inl e, s)
         | (Inr env, s) \<Rightarrow>
             let fullURL = AnnasSearchEndpoint (AnnasBaseURL env) (QueryEscape w query)
                             (QueryEscape w content)
             in case collect w fullURL of
                  Refused e \<Rightarrow>
                    (Inl (''failed to visit search URL: '' @ e),
                     logAt ErrorLevel ''Failed to visit search URL'' s)
                | Failed code e \<Rightarrow>
                    parseCollected []
                      (logAt ErrorLevel ''Search request failed''
                         (logAt InfoLevel ''Visiting URL'' (send fullURL s)))
                | Fetched pg \<Rightarrow>
                    parseCollected
                      (filter (\<lambda>e. class_attr e = primaryLinkClass) (anchors pg))
                      (logAt InfoLevel ''Visiting URL'' (send fullURL s)))"

text \<open>
  A path lies inside a directory when it continues the cleaned name of the directory
  after a separator.
\<close>

definition insideDir :: "string \<Rightarrow> string \<Rightarrow> bool" where
  "insideDir dir path = HasPrefix path (Clean dir @ ''/'')"

section \<open>Predicates of the statements and example worlds\<close>

text \<open>A visit that does not deliver a page: the URL is refused or the request fails.\<close>

definition fetchFails :: "visit \<Rightarrow> bool" where
  "fetchFails v = (case v of Fetched pg \<Rightarrow> False | _ \<Rightarrow> True)"

text \<open>The anchors \<open>FindBook\<close> collects from the answer to the search request.\<close>

definition collected :: "visit \<Rightarrow> element list" where
  "collected v =
     (case v of
        Fetched pg \<Rightarrow> filter (\<lambda>e. class_attr e = primaryLinkClass) (anchors pg)
      | _ \<Rightarrow> [])"

text \<open>
  \<open>Book_creates\<close>: the execution of \<open>Book.Download\<close> reaches \<open>os.Create\<close> on \<open>filePath\<close>
  with the response \<open>downloadResp\<close> to copy (every earlier step succeeds), and the file is
  created. \<open>Paper_creates\<close> is the same for \<open>Paper.Download\<close>.
\<close>

definition Book_creates :: "world \<Rightarrow> Book \<Rightarrow> string \<Rightarrow> string \<Rightarrow> sys \<Rightarrow> string \<Rightarrow> response \<Rightarrow> bool" where
  "Book_creates w b secretKey folderPath s filePath downloadResp =
     (\<exists>env resp apiResp.
        GetEnv w s = (Inr env, s) \<and>
        httpGet w (AnnasDownloadEndpoint (AnnasBaseURL env) (Hash b) secretKey) = Inr resp \<and>
        StatusCode resp = 200 \<and>
        decodeJSON w resp = Inr apiResp \<and>
        DownloadURL apiResp \<noteq> [] \<and>
        httpGet w (DownloadURL apiResp) = Inr downloadResp \<and>
        StatusCode downloadResp = 200 \<and>
        filePath = bookFilePath b folderPath \<and>
        createErr w filePath = None)"

definition Paper_creates :: "world \<Rightarrow> Paper \<Rightarrow> string \<Rightarrow> sys \<Rightarrow> string \<Rightarrow> response \<Rightarrow> bool" where
  "Paper_creates w p folderPath s filePath resp =
     (\<exists>env downloadURL.
        PaperDownloadURL p \<noteq> [] \<and>
        GetEnv w s = (Inr env, s) \<and>
        downloadURL = (if HasPrefix (PaperDownloadURL p) ''http'' then PaperDownloadURL p
                       else ''https://'' @ AnnasBaseURL env @ PaperDownloadURL p) \<and>
        newRequestErr w downloadURL = None \<and>
        httpDo w BrowserUserAgent downloadURL = Inr resp \<and>
        StatusCode resp = 200 \<and>
        filePath = paperFilePath w p resp folderPath \<and>
        createErr w filePath = None)"

text \<open>The streaming copy or the sync of the file fails.\<close>

definition copyOrSyncFails :: "world \<Rightarrow> response \<Rightarrow> bool" where
  "copyOrSyncFails w resp = (snd (ioCopy w resp) \<noteq> None \<or> syncErr w \<noteq> None)"

text \<open>
  The outcome of a run whose copy or sync failed: an error is returned; the file is gone
  when \<open>os.Remove\<close> succeeds, and when \<open>os.Remove\<close> fails the file is still there and
  the warning is in the log.
\<close>

definition partialFileHandled :: "world \<Rightarrow> string \<Rightarrow> (string + unit) \<times> sys \<Rightarrow> bool" where
  "partialFileHandled w filePath run =
     ((\<exists>msg. fst run = Inl msg) \<and>
      (case removeErr w filePath of
         None \<Rightarrow> files (snd run) filePath = None
       | Some e \<Rightarrow> files (snd run) filePath \<noteq> None \<and>
           (WarnLevel, ''Failed to remove partial file'') \<in> set (logs (snd run))))"

text \<open>
  Example worlds for the concrete runs below: the environment with a key and the download
  directory \<open>/srv/books\<close>, a network that is down, and variations of it.
\<close>

definition exampleEnviron :: "string \<Rightarrow> string" where
  "exampleEnviron v =
     (if v = ''ANNAS_SECRET_KEY'' then ''k3y''
      else if v = ''ANNAS_DOWNLOAD_PATH'' then ''/srv/books''
      else [])"

definition okResponse :: "string \<Rightarrow> response" where
  "okResponse body =
     \<lparr>StatusCode = 200, Status = ''200 OK'', Header = (\<lambda>h. []), Body = body, BodyErr = None\<rparr>"

definition offlineWorld :: world where
  "offlineWorld =
     \<lparr>environ = exampleEnviron,
      httpGet = (\<lambda>u. Inl ''no route to host''),
      httpDo = (\<lambda>agent u. Inl ''no route to host''),
      collect = (\<lambda>u. Failed 0 ''no route to host''),
      createErr = (\<lambda>p. None),
      writeErr = None,
      syncErr = None,
      removeErr = (\<lambda>p. None),
      decodeJSON = (\<lambda>r. Inl ''unexpected end of JSON input''),
      newRequestErr = (\<lambda>u. None),
      ParseMediaType = (\<lambda>v. Inl ''mime: no media type''),
      ExtensionsByType = (\<lambda>t. []),
      QueryEscape = (\<lambda>q. q)\<rparr>"

definition emptySys :: sys where
  "emptySys = \<lparr>files = Map.empty, requests = [], logs = []\<rparr>"

definition quotaWorld :: world where
  "quotaWorld =
     offlineWorld
       \<lparr>httpGet := (\<lambda>u. Inr (okResponse ''{\"download_url\": \"\", \"error\": \"quota exceeded\"}'')),
        decodeJSON := (\<lambda>r. Inr \<lparr>DownloadURL = [], Error = ''quota exceeded''\<rparr>)\<rparr>"

definition anchor :: "string \<Rightarrow> element" where
  "anchor h =
     \<lparr>href = h, class_attr = [], parentLength = 1, infoDivLength = 0, titleText = [],
      authorsRaw = [], publisherRaw = [], metaText = [], absoluteURL = []\<rparr>"

definition emptyPage :: page where
  "emptyPage = \<lparr>anchors = [], titles = [], descriptions = [], searchLinks = [], grayDivs = []\<rparr>"

definition noResultWorld :: world where
  "noResultWorld =
     offlineWorld
       \<lparr>collect := (\<lambda>u. if u = ''https://annas-archive.li/scidb/10.1000/none''
                         then Fetched (emptyPage\<lparr>anchors := [anchor ''/md5/'']\<rparr>)
                         else Failed 0 ''no route to host'')\<rparr>"

definition detailDownWorld :: world where
  "detailDownWorld =
     offlineWorld
       \<lparr>collect := (\<lambda>u. if u = ''https://annas-archive.li/scidb/10.1000/182''
                         then Fetched (emptyPage\<lparr>anchors := [anchor ''/md5/'', anchor ''/md5/ab12'',
                                                            anchor ''/md5/cd34'']\<rparr>)
                         else Failed 503 ''Service Unavailable'')\<rparr>"

definition duneBook :: Book where
  "duneBook =
     \<lparr>Language = [], Format = ''EPUB'', Size = [], Title = ''Dune'', Publisher = [],
      Authors = [], URL = [], Hash = ''d41d8cd9''\<rparr>"

definition servingWorld :: world where
  "servingWorld =
     offlineWorld
       \<lparr>httpGet := (\<lambda>u. if u = ''https://cdn.example/file''
                         then Inr (okResponse ''data'')
                         else Inr (okResponse ''{}'')),
        httpDo := (\<lambda>agent u. Inr (okResponse ''data'')),
        decodeJSON := (\<lambda>r. Inr \<lparr>DownloadURL = ''https://cdn.example/file'', Error = []\<rparr>)\<rparr>"

definition diskFullWorld :: world where
  "diskFullWorld = servingWorld\<lparr>writeErr := Some (3, ''no space left on device'')\<rparr>"

definition stuckWorld :: world where
  "stuckWorld = diskFullWorld\<lparr>removeErr := (\<lambda>p. Some ''permission denied'')\<rparr>"

definition natureP :: Paper where
  "natureP =
     \<lparr>DOI = ''10.1000/182'', PaperTitle = ''On Sand'', PaperAuthors = [], Journal = [],
      PaperSize = [], PaperHash = ''ab12'', PaperDownloadURL = ''/scidb?doi=10.1000/182'',
      SciHubURL = [], PageURL = []\<rparr>"

definition traversalBook :: Book where
  "traversalBook =
     \<lparr>Language = [], Format = ''/../../outside.txt'', Size = [], Title = ''Dune'',
      Publisher = [], Authors = [], URL = [], Hash = ''d41d8cd9''\<rparr>"


definition syncFailWorld :: world where
  "syncFailWorld = servingWorld\<lparr>syncErr := Some ''input/output error''\<rparr>"

definition resultAnchor :: "string \<Rightarrow> string \<Rightarrow> element" where
  "resultAnchor h t =
     \<lparr>href = h, class_attr = primaryLinkClass, parentLength = 1, infoDivLength = 1,
      titleText = t, authorsRaw = ''Frank Herbert'', publisherRaw = ''Ace'', metaText = [],
      absoluteURL = ''https://annas-archive.li'' @ h\<rparr>"

definition searchWorld :: world where
  "searchWorld =
     offlineWorld
       \<lparr>collect := (\<lambda>u. if u = ''https://annas-archive.li/search?q=dune&content=book_any''
                         then Fetched (emptyPage\<lparr>anchors :=
                                [resultAnchor ''/md5/ab12'' '' Dune '',
                                 resultAnchor ''/md5/cd34'' ''  '',
                                 resultAnchor ''/md5/'' ''Dune Messiah'',
                                 anchor ''/md5/ab12'']\<rparr>)
                         else Failed 0 ''no route to host'')\<rparr>"


section \<open>Properties of the filename sanitizer\<close>

lemma safe_underscore: "\<not> unsafeFilenameChars (CHR ''_'')"
  by (simp add: unsafeFilenameChars_def)

lemma safe_dot: "\<not> unsafeFilenameChars (CHR ''.'')"
  by (simp add: unsafeFilenameChars_def)

lemma unsafe_slash: "unsafeFilenameChars (CHR ''/'')"
  by (simp add: unsafeFilenameChars_def)

lemma ReplaceAllString_unsafe_safe:
  "c \<in> set (ReplaceAllString_unsafe s) \<Longrightarrow> \<not> unsafeFilenameChars c"
  by (auto simp: ReplaceAllString_unsafe_def safe_underscore)

lemma ReplaceAllString_unsafe_id:
  "list_all (\<lambda>c. \<not> unsafeFilenameChars c) s \<Longrightarrow> ReplaceAllString_unsafe s = s"
  by (induction s) (auto simp: ReplaceAllString_unsafe_def)

lemma ReplaceAll_dots_set:
  "set (ReplaceAll s ''..'' ''_'') \<subseteq> insert (CHR ''_'') (set s)"
proof (induction s "''..''" "''_''" rule: ReplaceAll.induct)
  case 1
  then show ?case by simp
next
  case (2 c cs)
  show ?case
  proof (cases "HasPrefix (c # cs) ''..''")
    case True
    then obtain ds where cs: "cs = CHR ''.'' # ds" and c: "c = CHR ''.''"
      by (cases cs) auto
    with 2 True show ?thesis by auto
  next
    case False
    with 2 show ?thesis by auto
  qed
qed

lemma Contains_dots_Cons:
  "Contains (a # b # t) ''..'' = ((a = CHR ''.'' \<and> b = CHR ''.'') \<or> Contains (b # t) ''..'')"
  by simp

lemma Contains_dots_single: "\<not> Contains [a] ''..''"
  by simp

lemma ReplaceAll_dots_head:
  "d \<noteq> CHR ''.'' \<Longrightarrow> ReplaceAll (d # ds) ''..'' ''_'' = d # ReplaceAll ds ''..'' ''_''"
  by simp

lemma ReplaceAll_dots_clean: "\<not> Contains (ReplaceAll s ''..'' ''_'') ''..''"
proof (induction s "''..''" "''_''" rule: ReplaceAll.induct)
  case 1
  then show ?case by simp
next
  case (2 c cs)
  show ?case
  proof (cases "HasPrefix (c # cs) ''..''")
    case True
    then obtain ds where cs: "cs = CHR ''.'' # ds" and c: "c = CHR ''.''"
      by (cases cs) auto
    have ih: "\<not> Contains (ReplaceAll ds ''..'' ''_'') ''..''"
      using 2(1) True cs by simp
    have "ReplaceAll (c # cs) ''..'' ''_'' = CHR ''_'' # ReplaceAll ds ''..'' ''_''"
      using cs c by simp
    moreover have "\<not> Contains (CHR ''_'' # ReplaceAll ds ''..'' ''_'') ''..''"
      using ih by (cases "ReplaceAll ds ''..'' ''_''") auto
    ultimately show ?thesis by simp
  next
    case False
    have ih: "\<not> Contains (ReplaceAll cs ''..'' ''_'') ''..''"
      using 2(2) False by simp
    have eq: "ReplaceAll (c # cs) ''..'' ''_'' = c # ReplaceAll cs ''..'' ''_''"
      using False by simp
    show ?thesis
    proof (cases cs)
      case Nil
      then show ?thesis using eq by simp
    next
      case (Cons d ds)
      show ?thesis
      proof (cases "d = CHR ''.''")
        case True
        with False Cons have "c \<noteq> CHR ''.''" by auto
        then show ?thesis using eq ih by (cases "ReplaceAll cs ''..'' ''_''") auto
      next
        case dn: False
        then have "ReplaceAll cs ''..'' ''_'' = d # ReplaceAll ds ''..'' ''_''"
          using Cons by simp
        then show ?thesis using eq ih dn by auto
      qed
    qed
  qed
qed

lemma ReplaceAll_dots_id: "\<not> Contains s ''..'' \<Longrightarrow> ReplaceAll s ''..'' ''_'' = s"
proof (induction s "''..''" "''_''" rule: ReplaceAll.induct)
  case 1
  then show ?case by simp
next
  case (2 c cs)
  from 2(3) have np: "\<not> HasPrefix (c # cs) ''..''" and nc: "\<not> Contains cs ''..''"
    by auto
  then show ?case using 2(2) by simp
qed

lemma Base_no_separator:
  assumes "CHR ''/'' \<notin> set p"
  shows "Base p = (if p = [] then ''.'' else p)"
proof (cases "p = []")
  case True
  then show ?thesis by (simp add: Base_def)
next
  case False
  have nosep: "\<And>x. x \<in> set (rev p) \<Longrightarrow> \<not> IsPathSeparator x"
    using assms by (auto simp: IsPathSeparator_def)
  have d: "dropWhile IsPathSeparator (rev p) = rev p"
    using nosep False by (cases "rev p") auto
  have t: "takeWhile (\<lambda>c. \<not> IsPathSeparator c) (rev p) = rev p"
    using nosep by (intro takeWhile_eq_all_conv [THEN iffD2]) blast
  show ?thesis
    using False unfolding Base_def Let_def d rev_rev_ident t by simp
qed

lemma sanitizeCore_safe: "c \<in> set (sanitizeCore s) \<Longrightarrow> \<not> unsafeFilenameChars c"
  using ReplaceAll_dots_set [of "ReplaceAllString_unsafe s"] ReplaceAllString_unsafe_safe [of c s]
  by (auto simp: sanitizeCore_def safe_underscore)

lemma sanitizeFilename_unfold:
  "sanitizeFilename s = take 200 (if sanitizeCore s = [] then ''.'' else sanitizeCore s)"
proof -
  have "CHR ''/'' \<notin> set (sanitizeCore s)"
    using sanitizeCore_safe unsafe_slash by blast
  then have "Base (sanitizeCore s) = (if sanitizeCore s = [] then ''.'' else sanitizeCore s)"
    by (rule Base_no_separator)
  then show ?thesis
    by (simp add: sanitizeFilename_def sanitizeCore_def Let_def)
qed

lemma Contains_take: "Contains (take n s) ''..'' \<Longrightarrow> Contains s ''..''"
proof (induction s arbitrary: n)
  case Nil
  then show ?case by simp
next
  case (Cons a s)
  show ?case
  proof (cases n)
    case 0
    with Cons.prems show ?thesis by simp
  next
    case (Suc m)
    show ?thesis
    proof (cases s)
      case Nil
      with Cons.prems Suc show ?thesis by simp
    next
      case (Cons b t)
      show ?thesis
      proof (cases m)
        case 0
        with Cons.prems Suc Cons show ?thesis by simp
      next
        case (Suc k)
        with Cons.prems \<open>n = Suc m\<close> Cons Cons.IH [of m] show ?thesis by auto
      qed
    qed
  qed
qed

lemma sanitizeFilename_safe: "c \<in> set (sanitizeFilename s) \<Longrightarrow> \<not> unsafeFilenameChars c"
  unfolding sanitizeFilename_unfold
  by (auto dest!: in_set_takeD simp: safe_dot sanitizeCore_safe split: if_splits)

lemma sanitizeFilename_no_dots: "\<not> Contains (sanitizeFilename s) ''..''"
proof
  assume "Contains (sanitizeFilename s) ''..''"
  then have "Contains (if sanitizeCore s = [] then ''.'' else sanitizeCore s) ''..''"
    unfolding sanitizeFilename_unfold by (rule Contains_take)
  then show False
    using ReplaceAll_dots_clean [of "ReplaceAllString_unsafe s"]
    by (auto simp: sanitizeCore_def split: if_splits)
qed

lemma sanitizeFilename_nonempty: "sanitizeFilename s \<noteq> []"
  unfolding sanitizeFilename_unfold by auto

lemma sanitizeFilename_length: "length (sanitizeFilename s) \<le> 200"
  unfolding sanitizeFilename_unfold by simp

lemma sanitizeFilename_fixed:
  assumes "list_all (\<lambda>c. \<not> unsafeFilenameChars c) t" "\<not> Contains t ''..''" "t \<noteq> []" "length t \<le> 200"
  shows "sanitizeFilename t = t"
proof -
  have "sanitizeCore t = t"
    using assms(1,2) by (simp add: sanitizeCore_def ReplaceAllString_unsafe_id ReplaceAll_dots_id)
  then show ?thesis
    unfolding sanitizeFilename_unfold using assms(3,4) by simp
qed


text \<open>
  Claim C2, as the code has it. Whenever the input of \<open>sanitizeFilename\<close> contains
  \<open>..\<close>, one of the characters \<^verbatim>\<open>< > : " / \ | ? *\<close> or a control character in the
  range \<open>0x00\<close> to \<open>0x1F\<close> (the range of the character class), the output contains
  none of these characters and no substring \<open>..\<close>. Control characters outside that
  range are left in place, see below.
\<close>

theorem sanitizeFilename_output_clean:
  "Contains s ''..'' \<or> list_ex unsafeFilenameChars s \<Longrightarrow>
   list_all (\<lambda>c. \<not> unsafeFilenameChars c) (sanitizeFilename s) \<and>
   \<not> Contains (sanitizeFilename s) ''..''"
  by (simp add: list_all_iff sanitizeFilename_safe sanitizeFilename_no_dots)

theorem sanitizeFilename_output_clean_witness:
  "(Contains ''../x:y'' ''..'' \<or> list_ex unsafeFilenameChars ''../x:y'') \<and>
   sanitizeFilename ''../x:y'' = ''__x_y'' \<and>
   list_all (\<lambda>c. \<not> unsafeFilenameChars c) (sanitizeFilename ''../x:y'') \<and>
   \<not> Contains (sanitizeFilename ''../x:y'') ''..''"
proof -
  have h: "Contains ''../x:y'' ''..'' \<or> list_ex unsafeFilenameChars ''../x:y''"
    by simp
  have v: "sanitizeFilename ''../x:y'' = ''__x_y''"
    by (simp add: sanitizeFilename_def ReplaceAllString_unsafe_def Base_def
        unsafeFilenameChars_def IsPathSeparator_def)
  show ?thesis
    using h v sanitizeFilename_output_clean [OF h] by simp
qed

text \<open>
  The claim as stated, for every control character, does not hold: the class
  \<open>unsafeFilenameChars\<close> stops at \<open>0x1F\<close>, so the control characters DEL (U+007F, the
  byte \<open>7F\<close>) and NEL (U+0085, the bytes \<open>C2 85\<close>) are kept. The input \<open>a/<DEL>\<close>
  gives \<open>a_<DEL>\<close>: the separator is replaced, the control character is still in the
  output.
\<close>

theorem sanitizeFilename_keeps_DEL:
  "sanitizeFilename [CHR ''a'', CHR ''/'', CHR 0x7F] = [CHR ''a'', CHR ''_'', CHR 0x7F] \<and>
   CHR 0x7F \<in> set (sanitizeFilename [CHR ''a'', CHR ''/'', CHR 0x7F]) \<and>
   sanitizeFilename [CHR 0x7F] = [CHR 0x7F] \<and>
   sanitizeFilename [CHR 0xC2, CHR 0x85] = [CHR 0xC2, CHR 0x85]"
  by (simp add: sanitizeFilename_def ReplaceAllString_unsafe_def Base_def
      unsafeFilenameChars_def IsPathSeparator_def)

text \<open>
  Claim C7. \<open>sanitizeFilename\<close> is idempotent: sanitizing its own output returns that
  output.
\<close>

theorem sanitizeFilename_idempotent:
  "sanitizeFilename (sanitizeFilename s) = sanitizeFilename s"
  by (rule sanitizeFilename_fixed)
     (auto simp: list_all_iff sanitizeFilename_safe sanitizeFilename_no_dots
        sanitizeFilename_nonempty sanitizeFilename_length)

text \<open>
  Claim C8. \<open>sanitizeFilename\<close> applied to the empty string: \<open>filepath.Base\<close> maps the
  empty path to \<open>"."\<close>, so the result is \<open>"."\<close> and not the empty string.
\<close>

theorem sanitizeFilename_empty: "sanitizeFilename [] = ''.''"
  by (simp add: sanitizeFilename_def ReplaceAllString_unsafe_def Base_def)

section \<open>The metadata parser on the documented example\<close>

text \<open>
  Claim C6. On the string \<open>"\<checkmark> English [en] \<cdot> EPUB \<cdot> 0.7MB \<cdot> 2015"\<close> (the check
  mark is U+2705, the dots are U+00B7, both in UTF-8) \<open>extractMetaInformation\<close> returns
  the language \<open>English\<close>, the format \<open>EPUB\<close> and the size \<open>0.7MB\<close>.
\<close>

theorem extractMetaInformation_example:
  "extractMetaInformation
     ([CHR 0xE2, CHR 0x9C, CHR 0x85] @ '' English [en] '' @ [CHR 0xC2, CHR 0xB7] @
      '' EPUB '' @ [CHR 0xC2, CHR 0xB7] @ '' 0.7MB '' @ [CHR 0xC2, CHR 0xB7] @ '' 2015'')
   = (''English'', ''EPUB'', ''0.7MB'')"
  by code_simp

section \<open>Properties of the download engine\<close>

lemma GetEnv_Inr_state: "GetEnv w s = (Inr env, s') \<Longrightarrow> s' = s"
  by (auto simp: GetEnv_def Let_def split: if_splits)

lemma GetEnv_example:
  "environ w = exampleEnviron \<Longrightarrow>
   GetEnv w s = (Inr \<lparr>SecretKey = ''k3y'', DownloadPath = ''/srv/books'',
                       AnnasBaseURL = ''annas-archive.li''\<rparr>, s)"
  by (simp add: GetEnv_def exampleEnviron_def IsAbs_def DefaultAnnasBaseURL_def)

text \<open>
  Claim C3. In \<open>Book.Download\<close>, when the fast-download API answers with status 200 and
  an envelope whose \<open>download_url\<close> is empty, the function fails: with the message
  \<open>API error:\<close> followed by exactly the \<open>error\<close> field when that field is set, and with
  \<open>API returned empty download URL\<close> when it is empty too. The API request is the only
  request sent (the file is never requested), and no file is touched.
\<close>

theorem Book_Download_empty_download_url:
  assumes "GetEnv w s = (Inr env, s0)"
    and "httpGet w (AnnasDownloadEndpoint (AnnasBaseURL env) (Hash b) secretKey) = Inr resp"
    and "StatusCode resp = 200"
    and "decodeJSON w resp = Inr apiResp"
    and "DownloadURL apiResp = []"
  shows "Book_Download w b secretKey folderPath s =
           (Inl (if Error apiResp \<noteq> [] then ''API error: '' @ Error apiResp
                 else ''API returned empty download URL''),
            send (AnnasDownloadEndpoint (AnnasBaseURL env) (Hash b) secretKey)
              (logAt InfoLevel ''Fetching download URL'' s))
         \<and> requests (snd (Book_Download w b secretKey folderPath s)) =
             requests s @ [AnnasDownloadEndpoint (AnnasBaseURL env) (Hash b) secretKey]
         \<and> files (snd (Book_Download w b secretKey folderPath s)) = files s"
proof -
  from assms(1) have s0: "s0 = s" by (rule GetEnv_Inr_state)
  have run: "Book_Download w b secretKey folderPath s =
           (Inl (if Error apiResp \<noteq> [] then ''API error: '' @ Error apiResp
                 else ''API returned empty download URL''),
            send (AnnasDownloadEndpoint (AnnasBaseURL env) (Hash b) secretKey)
              (logAt InfoLevel ''Fetching download URL'' s))"
    using assms s0 by (simp add: Book_Download_def Let_def)
  show ?thesis
    unfolding run by (simp add: send_def logAt_def)
qed

theorem Book_Download_empty_download_url_witness:
  "Book_Download quotaWorld
     \<lparr>Language = [], Format = ''epub'', Size = [], Title = ''Dune'', Publisher = [],
      Authors = [], URL = [], Hash = ''d41d8cd9''\<rparr> ''k3y'' ''/srv/books'' emptySys
   = (Inl ''API error: quota exceeded'',
      \<lparr>files = Map.empty,
       requests = [''https://annas-archive.li/dyn/api/fast_download.json?md5=d41d8cd9&key=k3y''],
       logs = [(InfoLevel, ''Fetching download URL'')]\<rparr>)"
proof -
  let ?b = "\<lparr>Language = [], Format = ''epub'', Size = [], Title = ''Dune'', Publisher = [],
      Authors = [], URL = [], Hash = ''d41d8cd9''\<rparr>"
  let ?env = "\<lparr>SecretKey = ''k3y'', DownloadPath = ''/srv/books'',
                       AnnasBaseURL = ''annas-archive.li''\<rparr>"
  have e: "GetEnv quotaWorld emptySys = (Inr ?env, emptySys)"
    by (rule GetEnv_example) (simp add: quotaWorld_def offlineWorld_def)
  have g: "httpGet quotaWorld (AnnasDownloadEndpoint (AnnasBaseURL ?env) (Hash ?b) ''k3y'')
           = Inr (okResponse ''{\"download_url\": \"\", \"error\": \"quota exceeded\"}'')"
    by (simp add: quotaWorld_def offlineWorld_def)
  have c: "StatusCode (okResponse ''{\"download_url\": \"\", \"error\": \"quota exceeded\"}'') = 200"
    by (simp add: okResponse_def)
  have d: "decodeJSON quotaWorld (okResponse ''{\"download_url\": \"\", \"error\": \"quota exceeded\"}'')
           = Inr \<lparr>DownloadURL = [], Error = ''quota exceeded''\<rparr>"
    by (simp add: quotaWorld_def offlineWorld_def)
  have u: "DownloadURL \<lparr>DownloadURL = [], Error = ''quota exceeded''\<rparr> = []"
    by simp
  show ?thesis
    using Book_Download_empty_download_url [OF e g c d u, of "''/srv/books''"]
    by (simp add: AnnasDownloadEndpoint_def send_def logAt_def emptySys_def)
qed

lemma writePath_failure:
  assumes "createErr w filePath = None" and "copyOrSyncFails w resp"
  shows "partialFileHandled w filePath (writePath w filePath resp done s)"
proof (cases "snd (ioCopy w resp)")
  case (Some e)
  with assms(1) show ?thesis
    by (cases "removeErr w filePath")
       (simp_all add: writePath_def partialFileHandled_def Let_def removePartial_def logAt_def)
next
  case None
  with assms(2) obtain e where "syncErr w = Some e"
    by (auto simp: copyOrSyncFails_def)
  with None assms(1) show ?thesis
    by (cases "removeErr w filePath")
       (simp_all add: writePath_def partialFileHandled_def Let_def removePartial_def logAt_def)
qed

lemma Book_Download_reaches_writePath:
  assumes "Book_creates w b secretKey folderPath s filePath downloadResp"
  shows "\<exists>s1. Book_Download w b secretKey folderPath s =
           writePath w filePath downloadResp ''Download completed successfully'' s1"
proof -
  from assms obtain env resp apiResp where
    h: "GetEnv w s = (Inr env, s)"
      "httpGet w (AnnasDownloadEndpoint (AnnasBaseURL env) (Hash b) secretKey) = Inr resp"
      "StatusCode resp = 200" "decodeJSON w resp = Inr apiResp" "DownloadURL apiResp \<noteq> []"
      "httpGet w (DownloadURL apiResp) = Inr downloadResp" "StatusCode downloadResp = 200"
      "filePath = bookFilePath b folderPath"
    unfolding Book_creates_def by blast
  then have "Book_Download w b secretKey folderPath s =
      writePath w filePath downloadResp ''Download completed successfully''
        (logAt InfoLevel ''Creating file''
           (send (DownloadURL apiResp)
              (logAt InfoLevel ''Downloading file''
                 (send (AnnasDownloadEndpoint (AnnasBaseURL env) (Hash b) secretKey)
                    (logAt InfoLevel ''Fetching download URL'' s)))))"
    by (simp add: Book_Download_def Let_def)
  then show ?thesis by (rule exI)
qed

lemma Paper_Download_reaches_writePath:
  assumes "Paper_creates w p folderPath s filePath resp"
  shows "\<exists>s1. Paper_Download w p folderPath s =
           writePath w filePath resp ''Paper download completed successfully'' s1"
proof -
  from assms obtain env where
    h: "PaperDownloadURL p \<noteq> []" "GetEnv w s = (Inr env, s)"
      "newRequestErr w (if HasPrefix (PaperDownloadURL p) ''http'' then PaperDownloadURL p
                       else ''https://'' @ AnnasBaseURL env @ PaperDownloadURL p) = None"
      "httpDo w BrowserUserAgent (if HasPrefix (PaperDownloadURL p) ''http'' then PaperDownloadURL p
                       else ''https://'' @ AnnasBaseURL env @ PaperDownloadURL p) = Inr resp"
      "StatusCode resp = 200" "filePath = paperFilePath w p resp folderPath"
    unfolding Paper_creates_def by blast
  then have "Paper_Download w p folderPath s =
      writePath w filePath resp ''Paper download completed successfully''
        (logAt InfoLevel ''Creating file''
           (send (if HasPrefix (PaperDownloadURL p) ''http'' then PaperDownloadURL p
                  else ''https://'' @ AnnasBaseURL env @ PaperDownloadURL p)
              (logAt InfoLevel ''Downloading paper via SciDB'' s)))"
    by (simp add: Paper_Download_def Let_def)
  then show ?thesis by (rule exI)
qed

text \<open>The example runs reach the write path.\<close>

lemma duneBook_path: "bookFilePath duneBook ''/srv/books'' = ''/srv/books/Dune.epub''"
  by code_simp

lemma natureP_path:
  "paperFilePath syncFailWorld natureP (okResponse ''data'') ''/srv/books''
   = ''/srv/books/On Sand.pdf''"
  by code_simp

lemma Book_creates_duneBook:
  assumes "environ w = exampleEnviron" and "httpGet w = httpGet servingWorld"
    and "decodeJSON w = decodeJSON servingWorld" and "createErr w = (\<lambda>p. None)"
  shows "Book_creates w duneBook ''k3y'' ''/srv/books'' emptySys
           ''/srv/books/Dune.epub'' (okResponse ''data'')"
  unfolding Book_creates_def
  apply (rule exI [of _ "\<lparr>SecretKey = ''k3y'', DownloadPath = ''/srv/books'',
                       AnnasBaseURL = ''annas-archive.li''\<rparr>"])
  apply (rule exI [of _ "okResponse ''{}''"])
  apply (rule exI [of _ "\<lparr>DownloadURL = ''https://cdn.example/file'', Error = []\<rparr>"])
  apply (simp add: assms GetEnv_example duneBook_path servingWorld_def offlineWorld_def
      okResponse_def AnnasDownloadEndpoint_def)
  done

lemma Paper_creates_natureP:
  "Paper_creates syncFailWorld natureP ''/srv/books'' emptySys
     ''/srv/books/On Sand.pdf'' (okResponse ''data'')"
proof -
  let ?env = "\<lparr>SecretKey = ''k3y'', DownloadPath = ''/srv/books'',
               AnnasBaseURL = ''annas-archive.li''\<rparr>"
  have e: "GetEnv syncFailWorld emptySys = (Inr ?env, emptySys)"
    by (rule GetEnv_example) (simp add: syncFailWorld_def servingWorld_def offlineWorld_def)
  have u: "PaperDownloadURL natureP \<noteq> []" "\<not> HasPrefix (PaperDownloadURL natureP) ''http''"
    by (simp_all add: natureP_def)
  have w: "newRequestErr syncFailWorld url = None"
    "httpDo syncFailWorld BrowserUserAgent url = Inr (okResponse ''data'')"
    "createErr syncFailWorld path = None" for url path
    by (simp_all add: syncFailWorld_def servingWorld_def offlineWorld_def)
  have c: "StatusCode (okResponse ''data'') = 200" by (simp add: okResponse_def)
  show ?thesis
    unfolding Paper_creates_def
    using e u w c natureP_path by auto
qed


text \<open>
  Claim C1, as the code has it. In \<open>Book.Download\<close> and in \<open>Paper.Download\<close>, when the
  destination file has been created and the streaming copy or the sync then fails, the
  function returns an error, closes the file and calls \<open>os.Remove\<close> on it: when the
  removal succeeds no file exists at the target path afterwards; when the removal itself
  fails, the failure is logged as a warning and the partial file stays.
\<close>

theorem Download_partial_file_cleanup:
  "(Book_creates w b secretKey folderPath s filePath downloadResp \<and> copyOrSyncFails w downloadResp
      \<longrightarrow> partialFileHandled w filePath (Book_Download w b secretKey folderPath s)) \<and>
   (Paper_creates w p folderPath' s' filePath' resp \<and> copyOrSyncFails w resp
      \<longrightarrow> partialFileHandled w filePath' (Paper_Download w p folderPath' s'))"
proof (intro conjI impI)
  assume a: "Book_creates w b secretKey folderPath s filePath downloadResp \<and> copyOrSyncFails w downloadResp"
  then have c: "createErr w filePath = None" by (auto simp: Book_creates_def)
  from a Book_Download_reaches_writePath obtain s1 where
    "Book_Download w b secretKey folderPath s =
       writePath w filePath downloadResp ''Download completed successfully'' s1" by blast
  with writePath_failure [OF c] a
  show "partialFileHandled w filePath (Book_Download w b secretKey folderPath s)" by simp
next
  assume a: "Paper_creates w p folderPath' s' filePath' resp \<and> copyOrSyncFails w resp"
  then have c: "createErr w filePath' = None" by (auto simp: Paper_creates_def)
  from a Paper_Download_reaches_writePath obtain s1 where
    "Paper_Download w p folderPath' s' =
       writePath w filePath' resp ''Paper download completed successfully'' s1" by blast
  with writePath_failure [OF c] a
  show "partialFileHandled w filePath' (Paper_Download w p folderPath' s')" by simp
qed

theorem Download_partial_file_cleanup_witness:
  "Book_creates diskFullWorld duneBook ''k3y'' ''/srv/books'' emptySys
     ''/srv/books/Dune.epub'' (okResponse ''data'') \<and>
   copyOrSyncFails diskFullWorld (okResponse ''data'') \<and>
   partialFileHandled diskFullWorld ''/srv/books/Dune.epub''
     (Book_Download diskFullWorld duneBook ''k3y'' ''/srv/books'' emptySys) \<and>
   fst (Book_Download diskFullWorld duneBook ''k3y'' ''/srv/books'' emptySys) =
     Inl ''failed to write file (wrote 3 bytes): no space left on device'' \<and>
   files (snd (Book_Download diskFullWorld duneBook ''k3y'' ''/srv/books'' emptySys))
     ''/srv/books/Dune.epub'' = None \<and>
   Paper_creates syncFailWorld natureP ''/srv/books'' emptySys
     ''/srv/books/On Sand.pdf'' (okResponse ''data'') \<and>
   copyOrSyncFails syncFailWorld (okResponse ''data'') \<and>
   partialFileHandled syncFailWorld ''/srv/books/On Sand.pdf''
     (Paper_Download syncFailWorld natureP ''/srv/books'' emptySys) \<and>
   fst (Paper_Download syncFailWorld natureP ''/srv/books'' emptySys) =
     Inl ''failed to sync file to disk: input/output error'' \<and>
   files (snd (Paper_Download syncFailWorld natureP ''/srv/books'' emptySys))
     ''/srv/books/On Sand.pdf'' = None"
proof -
  have b: "Book_creates diskFullWorld duneBook ''k3y'' ''/srv/books'' emptySys
     ''/srv/books/Dune.epub'' (okResponse ''data'')"
    by (rule Book_creates_duneBook)
       (simp_all add: diskFullWorld_def servingWorld_def offlineWorld_def)
  have bf: "copyOrSyncFails diskFullWorld (okResponse ''data'')"
    by (simp add: copyOrSyncFails_def ioCopy_def diskFullWorld_def okResponse_def)
  have p: "Paper_creates syncFailWorld natureP ''/srv/books'' emptySys
     ''/srv/books/On Sand.pdf'' (okResponse ''data'')"
    by (rule Paper_creates_natureP)
  have pf: "copyOrSyncFails syncFailWorld (okResponse ''data'')"
    by (simp add: copyOrSyncFails_def syncFailWorld_def)
  have v1: "fst (Book_Download diskFullWorld duneBook ''k3y'' ''/srv/books'' emptySys) =
     Inl ''failed to write file (wrote 3 bytes): no space left on device''"
    by code_simp
  have v2: "files (snd (Book_Download diskFullWorld duneBook ''k3y'' ''/srv/books'' emptySys))
     ''/srv/books/Dune.epub'' = None"
    by code_simp
  have v3: "fst (Paper_Download syncFailWorld natureP ''/srv/books'' emptySys) =
     Inl ''failed to sync file to disk: input/output error''"
    by code_simp
  have v4: "files (snd (Paper_Download syncFailWorld natureP ''/srv/books'' emptySys))
     ''/srv/books/On Sand.pdf'' = None"
    by code_simp
  from Download_partial_file_cleanup
    [of diskFullWorld duneBook "''k3y''" "''/srv/books''" emptySys "''/srv/books/Dune.epub''"
        "okResponse ''data''" _ _ _ _ _]
  have c1: "partialFileHandled diskFullWorld ''/srv/books/Dune.epub''
     (Book_Download diskFullWorld duneBook ''k3y'' ''/srv/books'' emptySys)"
    using b bf by blast
  from Download_partial_file_cleanup
    [of syncFailWorld _ _ _ _ _ _ natureP "''/srv/books''" emptySys "''/srv/books/On Sand.pdf''"
        "okResponse ''data''"]
  have c2: "partialFileHandled syncFailWorld ''/srv/books/On Sand.pdf''
     (Paper_Download syncFailWorld natureP ''/srv/books'' emptySys)"
    using p pf by blast
  from b bf c1 v1 v2 p pf c2 v3 v4 show ?thesis by blast
qed

text \<open>
  The claim as stated, that no file exists at the target path after every failed copy,
  does not hold: in a run whose copy fails after three bytes and whose \<open>os.Remove\<close> is
  refused, an error is returned and the three bytes are still at the target path.
\<close>

theorem Download_partial_file_remains:
  "Book_creates stuckWorld duneBook ''k3y'' ''/srv/books'' emptySys
     ''/srv/books/Dune.epub'' (okResponse ''data'') \<and>
   copyOrSyncFails stuckWorld (okResponse ''data'') \<and>
   fst (Book_Download stuckWorld duneBook ''k3y'' ''/srv/books'' emptySys) =
     Inl ''failed to write file (wrote 3 bytes): no space left on device'' \<and>
   files (snd (Book_Download stuckWorld duneBook ''k3y'' ''/srv/books'' emptySys))
     ''/srv/books/Dune.epub'' = Some ''dat''"
proof -
  have b: "Book_creates stuckWorld duneBook ''k3y'' ''/srv/books'' emptySys
     ''/srv/books/Dune.epub'' (okResponse ''data'')"
    by (rule Book_creates_duneBook)
       (simp_all add: stuckWorld_def diskFullWorld_def servingWorld_def offlineWorld_def)
  have bf: "copyOrSyncFails stuckWorld (okResponse ''data'')"
    by (simp add: copyOrSyncFails_def ioCopy_def stuckWorld_def diskFullWorld_def okResponse_def)
  have v1: "fst (Book_Download stuckWorld duneBook ''k3y'' ''/srv/books'' emptySys) =
     Inl ''failed to write file (wrote 3 bytes): no space left on device''"
    by code_simp
  have v2: "files (snd (Book_Download stuckWorld duneBook ''k3y'' ''/srv/books'' emptySys))
     ''/srv/books/Dune.epub'' = Some ''dat''"
    by code_simp
  from b bf v1 v2 show ?thesis by blast
qed


section \<open>Properties of the DOI resolver\<close>

lemma onMd5Anchor_other_fields:
  "DOI (onMd5Anchor p e) = DOI p \<and> PageURL (onMd5Anchor p e) = PageURL p \<and>
   PaperTitle (onMd5Anchor p e) = PaperTitle p \<and> PaperAuthors (onMd5Anchor p e) = PaperAuthors p \<and>
   Journal (onMd5Anchor p e) = Journal p \<and> PaperSize (onMd5Anchor p e) = PaperSize p \<and>
   PaperDownloadURL (onMd5Anchor p e) = PaperDownloadURL p \<and> SciHubURL (onMd5Anchor p e) = SciHubURL p"
  by (simp add: onMd5Anchor_def Let_def)

lemma foldl_onMd5Anchor_found:
  "PaperHash p \<noteq> [] \<Longrightarrow> foldl onMd5Anchor p es = p"
  by (induction es) (simp_all add: onMd5Anchor_def)

lemma foldl_onMd5Anchor_none:
  "PaperHash p = [] \<Longrightarrow> list_all (\<lambda>e. TrimPrefix (href e) ''/md5/'' = []) es \<Longrightarrow>
   foldl onMd5Anchor p es = p"
  by (induction es) (simp_all add: onMd5Anchor_def)

lemma foldl_onMd5Anchor_first:
  "PaperHash p = [] \<Longrightarrow>
   find (\<lambda>e. TrimPrefix (href e) ''/md5/'' \<noteq> []) es = Some a \<Longrightarrow>
   foldl onMd5Anchor p es = p\<lparr>PaperHash := TrimPrefix (href a) ''/md5/''\<rparr>"
proof (induction es)
  case Nil
  then show ?case by simp
next
  case (Cons e es)
  show ?case
  proof (cases "TrimPrefix (href e) ''/md5/'' = []")
    case True
    then have "onMd5Anchor p e = p"
      using Cons.prems(1) by (simp add: onMd5Anchor_def)
    moreover from True Cons.prems(2)
    have "find (\<lambda>e. TrimPrefix (href e) ''/md5/'' \<noteq> []) es = Some a" by simp
    ultimately show ?thesis using Cons.IH Cons.prems(1) by simp
  next
    case False
    with Cons.prems(2) have a: "a = e" by simp
    have "onMd5Anchor p e = p\<lparr>PaperHash := TrimPrefix (href e) ''/md5/''\<rparr>"
      using Cons.prems(1) False by (simp add: onMd5Anchor_def)
    moreover have "PaperHash (p\<lparr>PaperHash := TrimPrefix (href e) ''/md5/''\<rparr>) \<noteq> []"
      using False by simp
    ultimately show ?thesis using a by (simp add: foldl_onMd5Anchor_found)
  qed
qed

text \<open>
  Claim C4. When the search page of phase 1 is fetched and no anchor with the prefix
  \<open>/md5/\<close> on it yields a non-empty hash, \<open>LookupDOI\<close> returns the error
  \<open>no paper found for DOI: <doi>\<close>, and the request of phase 1 is the only one sent: the
  detail page of phase 2 is never requested.
\<close>

theorem LookupDOI_not_found:
  assumes "GetEnv w s = (Inr env, s0)"
    and "collect w (AnnasSciDBEndpoint (AnnasBaseURL env) doi) = Fetched pg"
    and "list_all (\<lambda>e. TrimPrefix (href e) ''/md5/'' = []) (anchors pg)"
  shows "LookupDOI w doi s =
           (Inl (''no paper found for DOI: '' @ doi),
            send (AnnasSciDBEndpoint (AnnasBaseURL env) doi) (logAt InfoLevel ''Looking up DOI'' s))
         \<and> requests (snd (LookupDOI w doi s)) =
             requests s @ [AnnasSciDBEndpoint (AnnasBaseURL env) doi]"
proof -
  from assms(1) have s0: "s0 = s" by (rule GetEnv_Inr_state)
  let ?p = "\<lparr>DOI = doi, PaperTitle = [], PaperAuthors = [], Journal = [],
             PaperSize = [], PaperHash = [], PaperDownloadURL = [],
             SciHubURL = [], PageURL = AnnasSciDBEndpoint (AnnasBaseURL env) doi\<rparr>"
  have "foldl onMd5Anchor ?p (anchors pg) = ?p"
    using assms(3) by (intro foldl_onMd5Anchor_none) simp_all
  then have run: "LookupDOI w doi s =
           (Inl (''no paper found for DOI: '' @ doi),
            send (AnnasSciDBEndpoint (AnnasBaseURL env) doi) (logAt InfoLevel ''Looking up DOI'' s))"
    using assms(1,2) s0 by (simp add: LookupDOI_def Let_def)
  show ?thesis unfolding run by (simp add: send_def logAt_def)
qed

theorem LookupDOI_not_found_witness:
  "LookupDOI noResultWorld ''10.1000/none'' emptySys =
     (Inl ''no paper found for DOI: 10.1000/none'',
      \<lparr>files = Map.empty, requests = [''https://annas-archive.li/scidb/10.1000/none''],
       logs = [(InfoLevel, ''Looking up DOI'')]\<rparr>)"
proof -
  let ?env = "\<lparr>SecretKey = ''k3y'', DownloadPath = ''/srv/books'',
                       AnnasBaseURL = ''annas-archive.li''\<rparr>"
  have e: "GetEnv noResultWorld emptySys = (Inr ?env, emptySys)"
    by (rule GetEnv_example) (simp add: noResultWorld_def offlineWorld_def)
  have c: "collect noResultWorld (AnnasSciDBEndpoint (AnnasBaseURL ?env) ''10.1000/none'')
           = Fetched (emptyPage\<lparr>anchors := [anchor ''/md5/'']\<rparr>)"
    by (simp add: noResultWorld_def offlineWorld_def AnnasSciDBEndpoint_def)
  have a: "list_all (\<lambda>e. TrimPrefix (href e) ''/md5/'' = [])
             (anchors (emptyPage\<lparr>anchors := [anchor ''/md5/'']\<rparr>))"
    by (simp add: anchor_def TrimPrefix_def)
  show ?thesis
    using LookupDOI_not_found [OF e c a]
    by (simp add: AnnasSciDBEndpoint_def send_def logAt_def emptySys_def)
qed

text \<open>
  Claim C5. When phase 1 finds a non-empty hash (that of the first anchor that has one)
  and the visit of the detail page then fails, \<open>LookupDOI\<close> still returns a paper and
  no error: the hash, the page URL \<open>https://<host>/scidb/<doi>\<close> and the download
  reference \<open>/scidb?doi=<doi>\<close> are set, the enrichment fields are empty.
\<close>

theorem LookupDOI_detail_failure:
  assumes "GetEnv w s = (Inr env, s0)"
    and "collect w (AnnasSciDBEndpoint (AnnasBaseURL env) doi) = Fetched pg"
    and "find (\<lambda>e. TrimPrefix (href e) ''/md5/'' \<noteq> []) (anchors pg) = Some a"
    and "fetchFails (collect w (''https://'' @ AnnasBaseURL env @ ''/md5/'' @
                                 TrimPrefix (href a) ''/md5/''))"
  shows "fst (LookupDOI w doi s) =
           Inr \<lparr>DOI = doi, PaperTitle = [], PaperAuthors = [], Journal = [], PaperSize = [],
                PaperHash = TrimPrefix (href a) ''/md5/'',
                PaperDownloadURL = ''/scidb?doi='' @ doi, SciHubURL = [],
                PageURL = AnnasSciDBEndpoint (AnnasBaseURL env) doi\<rparr>
         \<and> TrimPrefix (href a) ''/md5/'' \<noteq> []"
proof -
  from assms(1) have s0: "s0 = s" by (rule GetEnv_Inr_state)
  let ?p = "\<lparr>DOI = doi, PaperTitle = [], PaperAuthors = [], Journal = [],
             PaperSize = [], PaperHash = [], PaperDownloadURL = [],
             SciHubURL = [], PageURL = AnnasSciDBEndpoint (AnnasBaseURL env) doi\<rparr>"
  have f: "foldl onMd5Anchor ?p (anchors pg) = ?p\<lparr>PaperHash := TrimPrefix (href a) ''/md5/''\<rparr>"
    using assms(3) by (intro foldl_onMd5Anchor_first) simp_all
  have ne: "TrimPrefix (href a) ''/md5/'' \<noteq> []"
    using assms(3) by (auto dest: find_Some_iff [THEN iffD1])
  show ?thesis
  proof (cases "collect w (''https://'' @ AnnasBaseURL env @ ''/md5/'' @ TrimPrefix (href a) ''/md5/'')")
    case (Refused e)
    then show ?thesis
      using assms(1,2) s0 f ne by (simp add: LookupDOI_def Let_def returnPaper_def)
  next
    case (Failed code e)
    then show ?thesis
      using assms(1,2) s0 f ne by (simp add: LookupDOI_def Let_def returnPaper_def)
  next
    case (Fetched detail)
    with assms(4) show ?thesis by (simp add: fetchFails_def)
  qed
qed

theorem LookupDOI_detail_failure_witness:
  "LookupDOI detailDownWorld ''10.1000/182'' emptySys =
     (Inr \<lparr>DOI = ''10.1000/182'', PaperTitle = [], PaperAuthors = [], Journal = [],
           PaperSize = [], PaperHash = ''ab12'', PaperDownloadURL = ''/scidb?doi=10.1000/182'',
           SciHubURL = [], PageURL = ''https://annas-archive.li/scidb/10.1000/182''\<rparr>,
      \<lparr>files = Map.empty,
       requests = [''https://annas-archive.li/scidb/10.1000/182'',
                   ''https://annas-archive.li/md5/ab12''],
       logs = [(InfoLevel, ''Looking up DOI''), (InfoLevel, ''Fetching paper details''),
               (WarnLevel, ''Failed to fetch paper details''),
               (WarnLevel, ''Failed to visit paper detail page'')]\<rparr>)"
proof -
  let ?env = "\<lparr>SecretKey = ''k3y'', DownloadPath = ''/srv/books'',
                       AnnasBaseURL = ''annas-archive.li''\<rparr>"
  let ?pg = "emptyPage\<lparr>anchors := [anchor ''/md5/'', anchor ''/md5/ab12'', anchor ''/md5/cd34'']\<rparr>"
  have e: "GetEnv detailDownWorld emptySys = (Inr ?env, emptySys)"
    by (rule GetEnv_example) (simp add: detailDownWorld_def offlineWorld_def)
  have c: "collect detailDownWorld (AnnasSciDBEndpoint (AnnasBaseURL ?env) ''10.1000/182'')
           = Fetched ?pg"
    by (simp add: detailDownWorld_def offlineWorld_def AnnasSciDBEndpoint_def)
  have a: "find (\<lambda>e. TrimPrefix (href e) ''/md5/'' \<noteq> []) (anchors ?pg)
           = Some (anchor ''/md5/ab12'')"
    by (simp add: anchor_def TrimPrefix_def)
  have h: "TrimPrefix (href (anchor ''/md5/ab12'')) ''/md5/'' = ''ab12''"
    by (simp add: anchor_def TrimPrefix_def)
  have f: "fetchFails (collect detailDownWorld (''https://'' @ AnnasBaseURL ?env @ ''/md5/'' @
             TrimPrefix (href (anchor ''/md5/ab12'')) ''/md5/''))"
    unfolding h by (simp add: detailDownWorld_def offlineWorld_def fetchFails_def)
  have st: "snd (LookupDOI detailDownWorld ''10.1000/182'' emptySys) =
      \<lparr>files = Map.empty,
       requests = [''https://annas-archive.li/scidb/10.1000/182'',
                   ''https://annas-archive.li/md5/ab12''],
       logs = [(InfoLevel, ''Looking up DOI''), (InfoLevel, ''Fetching paper details''),
               (WarnLevel, ''Failed to fetch paper details''),
               (WarnLevel, ''Failed to visit paper detail page'')]\<rparr>"
    using e
    by (simp add: LookupDOI_def Let_def detailDownWorld_def offlineWorld_def
        AnnasSciDBEndpoint_def emptyPage_def anchor_def onMd5Anchor_def TrimPrefix_def
        returnPaper_def send_def logAt_def emptySys_def)
  show ?thesis
    using LookupDOI_detail_failure [OF e c a f, unfolded h] st
    by (simp add: AnnasSciDBEndpoint_def prod_eq_iff)
qed


section \<open>Properties of the extraction of book records\<close>

lemma extractBook_Inr:
  "extractBook e = Inr b \<Longrightarrow> Title b \<noteq> [] \<and> Hash b \<noteq> []"
  by (auto simp: extractBook_def Let_def split: if_splits prod.splits)

lemma extractBook_skips:
  "TrimSpace (titleText e) = [] \<or> TrimPrefix (href e) ''/md5/'' = [] \<Longrightarrow>
   \<exists>reason. extractBook e = Inl reason"
  by (auto simp: extractBook_def Let_def split: prod.splits)

lemma parseBooks_logs_mono:
  "parseBooks es acc s = (books, s') \<Longrightarrow> set (logs s) \<subseteq> set (logs s')"
proof (induction es arbitrary: acc s)
  case Nil
  then show ?case by simp
next
  case (Cons e es)
  show ?case
  proof (cases "extractBook e")
    case (Inl reason)
    with Cons.prems have "parseBooks es acc (logAt WarnLevel reason s) = (books, s')" by simp
    from Cons.IH [OF this] show ?thesis by (auto simp: logAt_def)
  next
    case (Inr b)
    with Cons.prems have "parseBooks es (acc @ [b]) s = (books, s')" by simp
    from Cons.IH [OF this] show ?thesis .
  qed
qed

lemma parseBooks_sound:
  "parseBooks es acc s = (books, s') \<Longrightarrow>
   list_all (\<lambda>b. Title b \<noteq> [] \<and> Hash b \<noteq> []) acc \<Longrightarrow>
   list_all (\<lambda>b. Title b \<noteq> [] \<and> Hash b \<noteq> []) books"
proof (induction es arbitrary: acc s)
  case Nil
  then show ?case by simp
next
  case (Cons e es)
  show ?case
  proof (cases "extractBook e")
    case (Inl reason)
    with Cons.prems have "parseBooks es acc (logAt WarnLevel reason s) = (books, s')" by simp
    from Cons.IH [OF this Cons.prems(2)] show ?thesis .
  next
    case (Inr b)
    with Cons.prems have p: "parseBooks es (acc @ [b]) s = (books, s')" by simp
    have "list_all (\<lambda>b. Title b \<noteq> [] \<and> Hash b \<noteq> []) (acc @ [b])"
      using Cons.prems(2) extractBook_Inr [OF Inr] by simp
    from Cons.IH [OF p this] show ?thesis .
  qed
qed

lemma parseBooks_skip_logged:
  "parseBooks es acc s = (books, s') \<Longrightarrow> e \<in> set es \<Longrightarrow> extractBook e = Inl reason \<Longrightarrow>
   (WarnLevel, reason) \<in> set (logs s')"
proof (induction es arbitrary: acc s)
  case Nil
  then show ?case by simp
next
  case (Cons x xs)
  show ?case
  proof (cases "extractBook x")
    case (Inl r)
    with Cons.prems(1) have p: "parseBooks xs acc (logAt WarnLevel r s) = (books, s')" by simp
    show ?thesis
    proof (cases "e = x")
      case True
      with Inl Cons.prems(3) have "r = reason" by simp
      then have "(WarnLevel, reason) \<in> set (logs (logAt WarnLevel r s))"
        by (simp add: logAt_def)
      then show ?thesis using parseBooks_logs_mono [OF p] by blast
    next
      case False
      with Cons.prems(2) have "e \<in> set xs" by simp
      from Cons.IH [OF p this Cons.prems(3)] show ?thesis .
    qed
  next
    case (Inr b)
    with Cons.prems(1) have p: "parseBooks xs (acc @ [b]) s = (books, s')" by simp
    from Inr Cons.prems(3) have "e \<noteq> x" by auto
    with Cons.prems(2) have "e \<in> set xs" by simp
    from Cons.IH [OF p this Cons.prems(3)] show ?thesis .
  qed
qed

lemma parseCollected_props:
  assumes "parseCollected es s = (r, s')"
  shows "\<exists>books. r = Inr books \<and> list_all (\<lambda>b. Title b \<noteq> [] \<and> Hash b \<noteq> []) books
           \<and> (\<forall>e reason. e \<in> set es \<and> extractBook e = Inl reason
                \<longrightarrow> (WarnLevel, reason) \<in> set (logs s'))"
proof -
  obtain books s1 where p: "parseBooks es [] s = (books, s1)"
    by (cases "parseBooks es [] s")
  with assms have r: "r = Inr books" and s': "s' = logAt InfoLevel ''Search completed'' s1"
    by (simp_all add: parseCollected_def)
  have "list_all (\<lambda>b. Title b \<noteq> [] \<and> Hash b \<noteq> []) books"
    using parseBooks_sound [OF p] by simp
  moreover have "\<forall>e reason. e \<in> set es \<and> extractBook e = Inl reason
                \<longrightarrow> (WarnLevel, reason) \<in> set (logs s')"
    using parseBooks_skip_logged [OF p] s' by (auto simp: logAt_def)
  ultimately show ?thesis using r by blast
qed

text \<open>
  Claim C9. Every book in the list \<open>FindBook\<close> returns has a non-empty title and a
  non-empty hash; a collected anchor whose title or hash is empty is skipped, and the
  reason of the skip is in the log as a warning.
\<close>

theorem FindBook_records:
  assumes "FindBook w query content s = (Inr books, s')"
    and "GetEnv w s = (Inr env, s0)"
    and "v = collect w (AnnasSearchEndpoint (AnnasBaseURL env) (QueryEscape w query)
                         (QueryEscape w (if content = [] then ''book_any'' else content)))"
  shows "list_all (\<lambda>b. Title b \<noteq> [] \<and> Hash b \<noteq> []) books
         \<and> (\<forall>e. e \<in> set (collected v) \<and>
                  (TrimSpace (titleText e) = [] \<or> TrimPrefix (href e) ''/md5/'' = [])
              \<longrightarrow> (\<exists>reason. extractBook e = Inl reason \<and> (WarnLevel, reason) \<in> set (logs s')))"
proof -
  from assms(2) have s0: "s0 = s" by (rule GetEnv_Inr_state)
  let ?url = "AnnasSearchEndpoint (AnnasBaseURL env) (QueryEscape w query)
                (QueryEscape w (if content = [] then ''book_any'' else content))"
  have "\<exists>s1. parseCollected (collected v) s1 = (Inr books, s')"
  proof (cases "collect w ?url")
    case (Refused e)
    with assms(1,2) s0 show ?thesis by (simp add: FindBook_def Let_def)
  next
    case (Failed code e)
    then have c: "collected v = []" using assms(3) by (simp add: collected_def)
    from Failed assms(1,2) s0 have
      "parseCollected [] (logAt ErrorLevel ''Search request failed''
         (logAt InfoLevel ''Visiting URL'' (send ?url s))) = (Inr books, s')"
      by (simp add: FindBook_def Let_def)
    then show ?thesis unfolding c by (rule exI)
  next
    case (Fetched pg)
    then have c: "collected v = filter (\<lambda>e. class_attr e = primaryLinkClass) (anchors pg)"
      using assms(3) by (simp add: collected_def)
    from Fetched assms(1,2) s0 have
      "parseCollected (filter (\<lambda>e. class_attr e = primaryLinkClass) (anchors pg))
         (logAt InfoLevel ''Visiting URL'' (send ?url s)) = (Inr books, s')"
      by (simp add: FindBook_def Let_def)
    then show ?thesis unfolding c by (rule exI)
  qed
  then obtain s1 where p: "parseCollected (collected v) s1 = (Inr books, s')" ..
  from parseCollected_props [OF p]
  have b: "list_all (\<lambda>b. Title b \<noteq> [] \<and> Hash b \<noteq> []) books"
    and l: "\<And>e reason. e \<in> set (collected v) \<Longrightarrow> extractBook e = Inl reason
              \<Longrightarrow> (WarnLevel, reason) \<in> set (logs s')"
    by auto
  have "\<exists>reason. extractBook e = Inl reason \<and> (WarnLevel, reason) \<in> set (logs s')"
    if "e \<in> set (collected v)"
      and "TrimSpace (titleText e) = [] \<or> TrimPrefix (href e) ''/md5/'' = []" for e
  proof -
    from extractBook_skips [OF that(2)] obtain reason where r: "extractBook e = Inl reason" ..
    with l [OF that(1) r] show ?thesis by blast
  qed
  with b show ?thesis by blast
qed

theorem FindBook_records_witness:
  "fst (FindBook searchWorld ''dune'' [] emptySys) =
     Inr [\<lparr>Language = [], Format = [], Size = [], Title = ''Dune'', Publisher = ''Ace'',
           Authors = ''Frank Herbert'', URL = ''https://annas-archive.li/md5/ab12'',
           Hash = ''ab12''\<rparr>] \<and>
   logs (snd (FindBook searchWorld ''dune'' [] emptySys)) =
     [(InfoLevel, ''Visiting URL''), (WarnLevel, ''Skipping book: title is empty''),
      (WarnLevel, ''Skipping book: no hash found''), (InfoLevel, ''Search completed'')] \<and>
   list_all (\<lambda>b. Title b \<noteq> [] \<and> Hash b \<noteq> [])
     [\<lparr>Language = [], Format = [], Size = [], Title = ''Dune'', Publisher = ''Ace'',
       Authors = ''Frank Herbert'', URL = ''https://annas-archive.li/md5/ab12'',
       Hash = ''ab12''\<rparr>] \<and>
   (\<exists>reason. extractBook (resultAnchor ''/md5/cd34'' ''  '') = Inl reason \<and>
      (WarnLevel, reason) \<in> set (logs (snd (FindBook searchWorld ''dune'' [] emptySys))))"
proof -
  let ?env = "\<lparr>SecretKey = ''k3y'', DownloadPath = ''/srv/books'',
               AnnasBaseURL = ''annas-archive.li''\<rparr>"
  let ?books = "[\<lparr>Language = [], Format = [], Size = [], Title = ''Dune'', Publisher = ''Ace'',
           Authors = ''Frank Herbert'', URL = ''https://annas-archive.li/md5/ab12'',
           Hash = ''ab12''\<rparr>]"
  let ?run = "FindBook searchWorld ''dune'' [] emptySys"
  let ?v = "collect searchWorld (AnnasSearchEndpoint (AnnasBaseURL ?env)
              (QueryEscape searchWorld ''dune'')
              (QueryEscape searchWorld (if ([]::string) = [] then ''book_any'' else [])))"
  have v1: "fst ?run = Inr ?books"
    by code_simp
  have v2: "logs (snd ?run) =
     [(InfoLevel, ''Visiting URL''), (WarnLevel, ''Skipping book: title is empty''),
      (WarnLevel, ''Skipping book: no hash found''), (InfoLevel, ''Search completed'')]"
    by code_simp
  have run: "?run = (Inr ?books, snd ?run)"
    using v1 by (simp add: prod_eq_iff)
  have e: "GetEnv searchWorld emptySys = (Inr ?env, emptySys)"
    by (rule GetEnv_example) (simp add: searchWorld_def offlineWorld_def)
  have m: "resultAnchor ''/md5/cd34'' ''  '' \<in> set (collected ?v)"
    by (simp add: collected_def searchWorld_def offlineWorld_def AnnasSearchEndpoint_def
        emptyPage_def resultAnchor_def anchor_def primaryLinkClass_def)
  have t: "TrimSpace (titleText (resultAnchor ''/md5/cd34'' ''  '')) = []"
    by code_simp
  from FindBook_records [OF run e refl] m t
  have "list_all (\<lambda>b. Title b \<noteq> [] \<and> Hash b \<noteq> []) ?books"
    and "\<exists>reason. extractBook (resultAnchor ''/md5/cd34'' ''  '') = Inl reason \<and>
      (WarnLevel, reason) \<in> set (logs (snd ?run))"
    by blast+
  with v1 v2 show ?thesis by blast
qed


section \<open>The destination path of a book\<close>

lemma ToLower_empty: "(ToLower s = []) = (s = [])"
  by (simp add: ToLower_def)

text \<open>
  Claim C10. \<open>Book.Download\<close> builds the destination path as
  \<open>Join(folderPath, sanitizeFilename(Title) + "." + lowercase(Format))\<close> (with \<open>bin\<close> for
  an empty format): the format is lower-cased and not sanitized. For a book whose format
  contains separators and \<open>..\<close> elements, here \<open>/../../outside.txt\<close>, a download into
  \<open>/srv/books\<close> succeeds and creates the file \<open>/srv/outside.txt\<close>, outside the folder.
\<close>

theorem Book_Download_leaves_folder:
  "bookFilePath b folderPath =
     Join [folderPath, sanitizeFilename (Title b) @ ''.'' @
                       (if Format b = [] then ''bin'' else ToLower (Format b))] \<and>
   Contains (Format traversalBook) ''/'' \<and>
   Contains (Format traversalBook) ''..'' \<and>
   bookFilePath traversalBook ''/srv/books'' = ''/srv/outside.txt'' \<and>
   fst (Book_Download servingWorld traversalBook ''k3y'' ''/srv/books'' emptySys) = Inr () \<and>
   files (snd (Book_Download servingWorld traversalBook ''k3y'' ''/srv/books'' emptySys))
     ''/srv/outside.txt'' = Some ''data'' \<and>
   \<not> insideDir ''/srv/books'' ''/srv/outside.txt''"
proof -
  have g: "bookFilePath b folderPath =
     Join [folderPath, sanitizeFilename (Title b) @ ''.'' @
                       (if Format b = [] then ''bin'' else ToLower (Format b))]"
    unfolding bookFilePath_def Let_def
    by (simp only: sanitizeFilename_nonempty ToLower_empty if_False)
  have c1: "Contains (Format traversalBook) ''/''" by code_simp
  have c2: "Contains (Format traversalBook) ''..''" by code_simp
  have c3: "bookFilePath traversalBook ''/srv/books'' = ''/srv/outside.txt''" by code_simp
  have c4: "fst (Book_Download servingWorld traversalBook ''k3y'' ''/srv/books'' emptySys) = Inr ()"
    by code_simp
  have c5: "files (snd (Book_Download servingWorld traversalBook ''k3y'' ''/srv/books'' emptySys))
     ''/srv/outside.txt'' = Some ''data''"
    by code_simp
  have c6: "\<not> insideDir ''/srv/books'' ''/srv/outside.txt''" by code_simp
  from g c1 c2 c3 c4 c5 c6 show ?thesis by blast
qed


end
